theory Spec2Isabelle
  imports Main
begin

section \<open>The Azure delete command of ccoctl\<close>

text \<open>
  A shallow embedding of \<^verbatim>\<open>pkg/cmd/provisioning/azure/delete.go\<close>. The command talks to
  Azure through SDK clients; the model makes every such call an event of a trace, with the
  answer the provider gave, and takes the provider's answers from a record of response
  functions. A response function sees the events that came before its call, so the
  provider may answer the same request differently at different times.
\<close>

subsection \<open>Errors and outcomes\<close>

text \<open>
  A Go \<^verbatim>\<open>error\<close>: one coming from a collaborator (with its text), one produced by
  \<^verbatim>\<open>errors.Wrap(err, msg)\<close> (the cause and the added context), or the error of the
  storage-account name check.
\<close>

datatype error = Error string | Wrap error string | ValidationError

fun wrapped :: "error \<Rightarrow> bool" where
  "wrapped (Wrap e m) = True"
| "wrapped e = False"

text \<open>What a Go function yields: its return value, or a run-time panic (nil dereference).\<close>

datatype 'a outcome = Return 'a | Panic

subsection \<open>Data\<close>

text \<open>
  \<^verbatim>\<open>azureOptions\<close>, with the fields the delete command reads or registers as flags.
\<close>

record azureOptions =
  Name :: string
  Region :: string
  SubscriptionID :: string
  OIDCResourceGroupName :: string
  StorageAccountName :: string
  DeleteOIDCResourceGroup :: bool
  DryRun :: bool

text \<open>
  \<^verbatim>\<open>armmsi.Identity\<close>: every field the code reads is a pointer (\<open>None\<close> is nil), and
  \<^verbatim>\<open>Tags\<close> is a \<^verbatim>\<open>map[string]*string\<close>. The field names carry the prefix \<open>id\<close>
  because \<open>Name\<close> is a field of the options already.
\<close>

record Identity =
  idName :: "string option"
  idID :: "string option"
  idType :: "string option"
  idTags :: "string \<rightharpoonup> string option"

text \<open>
  One answer of the pager's \<^verbatim>\<open>NextPage\<close>: an error, or the page's
  \<^verbatim>\<open>Value []*armmsi.Identity\<close> (an entry may be a nil pointer).
\<close>

type_synonym page = "error + Identity option list"

text \<open>\<^verbatim>\<open>context.Context\<close>: the code only ever passes \<^verbatim>\<open>context.Background()\<close>.\<close>

datatype Context = Background | WithDeadline nat

fun deadline :: "Context \<Rightarrow> nat option" where
  "deadline Background = None"
| "deadline (WithDeadline d) = Some d"

text \<open>\<^verbatim>\<open>time.Second\<close>, a \<^verbatim>\<open>time.Duration\<close> in nanoseconds.\<close>

definition Second :: nat where
  "Second = 1000000000"

text \<open>
  The events of a run: each call to a collaborator with its arguments and the answer
  received, and each line logged with \<^verbatim>\<open>log.Printf\<close>.
\<close>

datatype event =
    NewDefaultAzureCredential "error option"
  | NewAzureClientWrapper string "error option"
  | NextPage string page
  | IdentityDelete Context string string "error option"
  | BeginDelete Context string "error option"
  | PollUntilDone Context string nat "error option"
  | StorageDelete Context string string "error option"
  | Log string

type_synonym trace = "event list"

fun isNextPage :: "event \<Rightarrow> bool" where
  "isNextPage (NextPage rg p) = True"
| "isNextPage ev = False"

fun isIdentityDelete :: "event \<Rightarrow> bool" where
  "isIdentityDelete (IdentityDelete ctx rg n r) = True"
| "isIdentityDelete ev = False"

fun isStorageDelete :: "event \<Rightarrow> bool" where
  "isStorageDelete (StorageDelete ctx rg a r) = True"
| "isStorageDelete ev = False"

fun isGroupDelete :: "event \<Rightarrow> bool" where
  "isGroupDelete (BeginDelete ctx rg r) = True"
| "isGroupDelete (PollUntilDone ctx rg f r) = True"
| "isGroupDelete ev = False"

fun isLog :: "event \<Rightarrow> bool" where
  "isLog (Log s) = True"
| "isLog ev = False"

text \<open>
  \<^verbatim>\<open>azureclients.AzureClientWrapper\<close>: the answers of its clients. The first argument
  of each field is the history of the run up to the call.
  \<^item> \<open>listPages\<close>: the answers the pager made by \<^verbatim>\<open>NewListByResourceGroupPager\<close> gives
    to successive \<^verbatim>\<open>NextPage\<close> calls; \<^verbatim>\<open>More()\<close> holds while answers remain. The
    listing is finite: a provider that pages forever is outside the model.
  \<^item> \<open>identityDelete\<close>: \<^verbatim>\<open>UserAssignedIdentitiesClient.Delete\<close>.
  \<^item> \<open>beginDelete\<close>: \<^verbatim>\<open>ResourceGroupsClient.BeginDelete\<close>; \<open>pollUntilDone\<close>: the
    \<^verbatim>\<open>PollUntilDone\<close> of the poller it returned.
  \<^item> \<open>storageDelete\<close>: \<^verbatim>\<open>StorageAccountClient.Delete\<close>.

  Every call is taken to return with an answer; a call that blocks for ever (the poll has
  no deadline) is outside the model.
\<close>

record client =
  listPages :: "trace \<Rightarrow> string \<Rightarrow> page list"
  identityDelete :: "trace \<Rightarrow> string \<Rightarrow> string \<Rightarrow> error option"
  beginDelete :: "trace \<Rightarrow> string \<Rightarrow> error option"
  pollUntilDone :: "trace \<Rightarrow> string \<Rightarrow> error option"
  storageDelete :: "trace \<Rightarrow> string \<Rightarrow> string \<Rightarrow> error option"

text \<open>
  What the process finds around it: the answer of
  \<^verbatim>\<open>azidentity.NewDefaultAzureCredential\<close>, and of
  \<^verbatim>\<open>azureclients.NewAzureClientWrapper\<close> for a subscription ID.
\<close>

record env =
  newDefaultAzureCredential :: "error option"
  newAzureClientWrapper :: "string \<Rightarrow> error + client"

subsection \<open>Constants and the name check\<close>

text \<open>
  Modelled from the spec: the constant \<^verbatim>\<open>ownedAzureResourceTagKeyPrefix\<close> is declared
  outside delete.go. The comment in \<^verbatim>\<open>deleteManagedIdentities\<close> gives the key as
  \<^verbatim>\<open>openshift.io_cloud-credential-operator_<name>\<close>.
\<close>

definition ownedAzureResourceTagKeyPrefix :: string where
  "ownedAzureResourceTagKeyPrefix = ''openshift.io_cloud-credential-operator''"

text \<open>
  Modelled from the spec: the constant \<^verbatim>\<open>ownedAzureResourceTagValue\<close> is declared outside
  delete.go. The same comment and the spec's tag convention give the value \<^verbatim>\<open>owned\<close>.
\<close>

definition ownedAzureResourceTagValue :: string where
  "ownedAzureResourceTagValue = ''owned''"

text \<open>
  Modelled from the spec: the constant \<^verbatim>\<open>oidcResourceGroupSuffix\<close> is declared outside
  delete.go. The spec's end-to-end scenario derives \<^verbatim>\<open>cluster1-oidc\<close> from
  \<^verbatim>\<open>cluster1\<close>.
\<close>

definition oidcResourceGroupSuffix :: string where
  "oidcResourceGroupSuffix = ''-oidc''"

text \<open>
  Modelled from the spec: \<^verbatim>\<open>validateStorageAccountName\<close> is defined outside delete.go.
  The spec: it fails when the length is outside 3 to 24 or when a character is not a
  lowercase ASCII letter or a digit.
\<close>

definition validateStorageAccountName :: "string \<Rightarrow> error option" where
  "validateStorageAccountName s =
     (if length s < 3 \<or> 24 < length s
         \<or> \<not> list_all (\<lambda>c. c \<in> set ''abcdefghijklmnopqrstuvwxyz0123456789'') s
      then Some ValidationError else None)"

subsection \<open>deleteManagedIdentities\<close>

text \<open>
  Line 46, for an identity that is not nil:
  \<^verbatim>\<open>nameTagValue, found := identity.Tags[ownedTagKey]; found && *nameTagValue == ownedAzureResourceTagValue\<close>.
  A key that is present with a nil value makes the dereference panic.
\<close>

definition hasOwnedTag :: "string \<Rightarrow> Identity \<Rightarrow> bool outcome" where
  "hasOwnedTag ownedTagKey identity =
     (case idTags identity ownedTagKey of
        None \<Rightarrow> Return False
      | Some None \<Rightarrow> Panic
      | Some (Some nameTagValue) \<Rightarrow> Return (nameTagValue = ownedAzureResourceTagValue))"

text \<open>
  Lines 45 to 49: the loop over one page, appending the owned identities to
  \<open>managedIdentities\<close>. Reading \<^verbatim>\<open>identity.Tags\<close> of a nil entry panics.
\<close>

fun filterPage :: "string \<Rightarrow> Identity option list \<Rightarrow> Identity list \<Rightarrow> Identity list outcome" where
  "filterPage ownedTagKey [] managedIdentities = Return managedIdentities"
| "filterPage ownedTagKey (None # rest) managedIdentities = Panic"
| "filterPage ownedTagKey (Some identity # rest) managedIdentities =
     (case hasOwnedTag ownedTagKey identity of
        Panic \<Rightarrow> Panic
      | Return True \<Rightarrow> filterPage ownedTagKey rest (managedIdentities @ [identity])
      | Return False \<Rightarrow> filterPage ownedTagKey rest managedIdentities)"

text \<open>
  Lines 34 to 50: the loop over the pager. It yields the events of its \<^verbatim>\<open>NextPage\<close>
  calls and either the error of a failed fetch or the identities collected.
\<close>

fun listLoop :: "string \<Rightarrow> string \<Rightarrow> page list \<Rightarrow> Identity list
    \<Rightarrow> trace \<times> (error + Identity list) outcome" where
  "listLoop ownedTagKey rg [] managedIdentities = ([], Return (Inr managedIdentities))"
| "listLoop ownedTagKey rg (Inl err # pages) managedIdentities =
     ([NextPage rg (Inl err)], Return (Inl err))"
| "listLoop ownedTagKey rg (Inr v # pages) managedIdentities =
     (case filterPage ownedTagKey v managedIdentities of
        Panic \<Rightarrow> ([NextPage rg (Inr v)], Panic)
      | Return managedIdentities' \<Rightarrow>
          (case listLoop ownedTagKey rg pages managedIdentities' of
             (evs, r) \<Rightarrow> (NextPage rg (Inr v) # evs, r)))"

text \<open>
  Lines 55 to 66: the delete loop. \<^verbatim>\<open>*identity.Name\<close> is evaluated before the call,
  \<^verbatim>\<open>*identity.Type\<close> and \<^verbatim>\<open>*identity.ID\<close> after a successful one. \<open>h\<close> is the
  history before the loop's next call.
\<close>

fun deleteLoop :: "client \<Rightarrow> string \<Rightarrow> Identity list \<Rightarrow> trace
    \<Rightarrow> trace \<times> error option outcome" where
  "deleteLoop c rg [] h = ([], Return None)"
| "deleteLoop c rg (identity # rest) h =
     (case idName identity of
        None \<Rightarrow> ([], Panic)
      | Some n \<Rightarrow>
          (let err = identityDelete c h rg n;
               call = IdentityDelete Background rg n err
           in case err of
                Some e \<Rightarrow> ([call], Return (Some e))
              | None \<Rightarrow>
                  (case idType identity of
                     None \<Rightarrow> ([call], Panic)
                   | Some ty \<Rightarrow>
                       (case idID identity of
                          None \<Rightarrow> ([call], Panic)
                        | Some i \<Rightarrow>
                            (let line = Log (''Deleted '' @ ty @ '' '' @ i)
                             in case deleteLoop c rg rest (h @ [call, line]) of
                                  (evs, r) \<Rightarrow> (call # line # evs, r))))))"

text \<open>
  \<^verbatim>\<open>deleteManagedIdentities(client, name, resourceGroupName, subscriptionID, region)\<close>,
  run after the history \<open>h\<close>: the events it adds and what it returns.
\<close>

definition deleteManagedIdentities :: "client \<Rightarrow> string \<Rightarrow> string \<Rightarrow> string \<Rightarrow> string \<Rightarrow> trace
    \<Rightarrow> trace \<times> error option outcome" where
  "deleteManagedIdentities c name resourceGroupName subscriptionID region h =
     (let ownedTagKey = ownedAzureResourceTagKeyPrefix @ ''_'' @ name
      in case listLoop ownedTagKey resourceGroupName (listPages c h resourceGroupName) [] of
           (evs, Panic) \<Rightarrow> (evs, Panic)
         | (evs, Return (Inl err)) \<Rightarrow> (evs, Return (Some err))
         | (evs, Return (Inr managedIdentities)) \<Rightarrow>
             if length managedIdentities = 0
             then (evs @ [Log (''Found no user-assigned managed identities with tag key=''
                     @ ownedTagKey @ '', value='' @ ownedAzureResourceTagValue)],
                   Return None)
             else (case deleteLoop c resourceGroupName managedIdentities (h @ evs) of
                     (evs', r) \<Rightarrow> (evs @ evs', r)))"

subsection \<open>deleteResourceGroup and deleteStorageAccount\<close>

definition deleteResourceGroup :: "client \<Rightarrow> string \<Rightarrow> trace \<Rightarrow> trace \<times> error option" where
  "deleteResourceGroup c resourceGroupName h =
     (let err = beginDelete c h resourceGroupName;
          start = BeginDelete Background resourceGroupName err
      in case err of
           Some e \<Rightarrow> ([start], Some (Wrap e ''failed to delete resource group''))
         | None \<Rightarrow>
             (let err' = pollUntilDone c (h @ [start]) resourceGroupName;
                  poll = PollUntilDone Background resourceGroupName (10 * Second) err'
              in case err' of
                   Some e \<Rightarrow> ([start, poll], Some e)
                 | None \<Rightarrow>
                     ([start, poll, Log (''Deleted resource group '' @ resourceGroupName)],
                      None)))"

definition deleteStorageAccount :: "client \<Rightarrow> string \<Rightarrow> string \<Rightarrow> trace \<Rightarrow> trace \<times> error option" where
  "deleteStorageAccount c resourceGroupName storageAccountName h =
     (let err = storageDelete c h resourceGroupName storageAccountName;
          call = StorageDelete Background resourceGroupName storageAccountName err
      in case err of
           Some e \<Rightarrow> ([call], Some (Wrap e ''failed to delete storage account''))
         | None \<Rightarrow> ([call, Log (''Deleted storage account '' @ storageAccountName)], None))"

subsection \<open>deleteCmd\<close>

text \<open>
  How the process ends: \<^verbatim>\<open>deleteCmd\<close> returns, \<^verbatim>\<open>log.Fatal\<close> prints an error (or a
  text, written \<open>Error text\<close>) and exits with status 1, or a panic.
\<close>

datatype exit = Completed | Fatal error | Panicked

text \<open>
  Lines 111 to 119: the defaults of the two names, written into the global
  \<^verbatim>\<open>DeleteOpts\<close>, each with its log line.
\<close>

definition defaultOIDCResourceGroupName :: "azureOptions \<Rightarrow> azureOptions \<times> trace" where
  "defaultOIDCResourceGroupName opts =
     (if OIDCResourceGroupName opts = ''''
      then (let opts' = opts\<lparr>OIDCResourceGroupName := Name opts @ oidcResourceGroupSuffix\<rparr>
            in (opts', [Log (''No --oidc-resource-group-name provided, defaulting OIDC resource group name to ''
                             @ OIDCResourceGroupName opts')]))
      else (opts, []))"

definition defaultStorageAccountName :: "azureOptions \<Rightarrow> azureOptions \<times> trace" where
  "defaultStorageAccountName opts =
     (if StorageAccountName opts = ''''
      then (let opts' = opts\<lparr>StorageAccountName := Name opts\<rparr>
            in (opts', [Log (''No --storage-account-name provided, defaulting storage account name to ''
                             @ StorageAccountName opts')]))
      else (opts, []))"

text \<open>
  Lines 120 to 153: the name check and the two deletion paths, for the client
  \<open>c\<close> and the options after defaulting, run after the history \<open>h\<close>.
\<close>

definition deletePaths :: "client \<Rightarrow> azureOptions \<Rightarrow> trace \<Rightarrow> trace \<times> exit" where
  "deletePaths c opts h =
     (case validateStorageAccountName (StorageAccountName opts) of
        Some err \<Rightarrow> ([], Fatal err)
      | None \<Rightarrow>
          if DeleteOIDCResourceGroup opts
          then (case deleteResourceGroup c (OIDCResourceGroupName opts) h of
                  (evs, Some err) \<Rightarrow> (evs, Fatal err)
                | (evs, None) \<Rightarrow> (evs, Completed))
          else (case deleteManagedIdentities c (Name opts) (OIDCResourceGroupName opts)
                       (SubscriptionID opts) (Region opts) h of
                  (evs, Panic) \<Rightarrow> (evs, Panicked)
                | (evs, Return (Some err)) \<Rightarrow> (evs, Fatal err)
                | (evs, Return None) \<Rightarrow>
                    (case deleteStorageAccount c (OIDCResourceGroupName opts)
                            (StorageAccountName opts) (h @ evs) of
                       (evs', Some err) \<Rightarrow> (evs @ evs', Fatal err)
                     | (evs', None) \<Rightarrow> (evs @ evs', Completed))))"

text \<open>
  \<^verbatim>\<open>deleteCmd\<close>, run with the global \<^verbatim>\<open>DeleteOpts\<close> holding \<open>opts\<close>: the options
  it leaves in \<^verbatim>\<open>DeleteOpts\<close>, the events of the run, and how the process ends.
\<close>

definition deleteCmd :: "env \<Rightarrow> azureOptions \<Rightarrow> azureOptions \<times> trace \<times> exit" where
  "deleteCmd e opts =
     (case newDefaultAzureCredential e of
        Some err \<Rightarrow> (opts, [NewDefaultAzureCredential (Some err)], Fatal err)
      | None \<Rightarrow>
          (case newAzureClientWrapper e (SubscriptionID opts) of
             Inl err \<Rightarrow>
               (opts,
                [NewDefaultAzureCredential None,
                 NewAzureClientWrapper (SubscriptionID opts) (Some err)],
                Fatal (Error ''Failed to create Azure client''))
           | Inr azureClientWrapper \<Rightarrow>
               (let h0 = [NewDefaultAzureCredential None,
                          NewAzureClientWrapper (SubscriptionID opts) None];
                    (opts1, l1) = defaultOIDCResourceGroupName opts;
                    (opts2, l2) = defaultStorageAccountName opts1;
                    h = h0 @ l1 @ l2;
                    (evs, x) = deletePaths azureClientWrapper opts2 h
                in (opts2, h @ evs, x))))"

subsection \<open>Notions used in the statements\<close>

text \<open>
  The entries of the pages the loop of lines 34 to 50 gets to see: those of the pages
  before the first failed fetch. \<open>fetchError\<close> is the error of that fetch, if there is one.
\<close>

fun fetched :: "page list \<Rightarrow> Identity option list" where
  "fetched [] = []"
| "fetched (Inl e # ps) = []"
| "fetched (Inr v # ps) = v @ fetched ps"

fun fetchError :: "page list \<Rightarrow> error option" where
  "fetchError [] = None"
| "fetchError (Inl e # ps) = Some e"
| "fetchError (Inr v # ps) = fetchError ps"

text \<open>The identities among the entries of a page, nil entries left out.\<close>

fun entries :: "Identity option list \<Rightarrow> Identity list" where
  "entries [] = []"
| "entries (None # vs) = entries vs"
| "entries (Some i # vs) = i # entries vs"

text \<open>
  An identity carries the ownership tag: the key is mapped to the value \<^verbatim>\<open>owned\<close>.
\<close>

definition selected :: "string \<Rightarrow> Identity \<Rightarrow> bool" where
  "selected k i = (idTags i k = Some (Some ownedAzureResourceTagValue))"

text \<open>
  An entry the filter of line 46 can read: it is not nil, and its tag map does not map
  the key to a nil pointer.
\<close>

fun wellTagged :: "string \<Rightarrow> Identity option \<Rightarrow> bool" where
  "wellTagged k None = False"
| "wellTagged k (Some i) = (idTags i k \<noteq> Some None)"

text \<open>The pointers the delete loop dereferences: \<^verbatim>\<open>Name\<close>, \<^verbatim>\<open>Type\<close>, \<^verbatim>\<open>ID\<close>.\<close>

definition pointersPresent :: "Identity \<Rightarrow> bool" where
  "pointersPresent i = (idName i \<noteq> None \<and> idType i \<noteq> None \<and> idID i \<noteq> None)"

text \<open>
  The identities a trace shows as deleted: resource group and name of every
  \<^verbatim>\<open>Delete\<close> call on the managed-identity client that was answered without an error.
\<close>

fun deleted :: "trace \<Rightarrow> (string \<times> string) list" where
  "deleted [] = []"
| "deleted (IdentityDelete ctx rg n None # evs) = (rg, n) # deleted evs"
| "deleted (ev # evs) = deleted evs"

text \<open>
  The options \<^verbatim>\<open>deleteCmd\<close> works with after lines 111 to 119, and the events up to
  there when the credential and the client were obtained.
\<close>

definition defaulted :: "azureOptions \<Rightarrow> azureOptions" where
  "defaulted opts = fst (defaultStorageAccountName (fst (defaultOIDCResourceGroupName opts)))"

definition preamble :: "azureOptions \<Rightarrow> trace" where
  "preamble opts =
     [NewDefaultAzureCredential None, NewAzureClientWrapper (SubscriptionID opts) None]
     @ snd (defaultOIDCResourceGroupName opts)
     @ snd (defaultStorageAccountName (fst (defaultOIDCResourceGroupName opts)))"

text \<open>
  The call of lines 137 to 141, as \<^verbatim>\<open>deleteCmd\<close> makes it with the client \<open>c\<close>.
\<close>

definition identitiesCall :: "client \<Rightarrow> azureOptions \<Rightarrow> trace \<times> error option outcome" where
  "identitiesCall c opts =
     deleteManagedIdentities c (Name opts) (OIDCResourceGroupName (defaulted opts))
       (SubscriptionID opts) (Region opts) (preamble opts)"

text \<open>The call of lines 147 to 149, made after the events \<open>evs\<close> of the identities call.\<close>

definition storageCall :: "client \<Rightarrow> azureOptions \<Rightarrow> trace \<Rightarrow> trace \<times> error option" where
  "storageCall c opts evs =
     deleteStorageAccount c (OIDCResourceGroupName (defaulted opts))
       (StorageAccountName (defaulted opts)) (preamble opts @ evs)"

text \<open>
  The deletions a trace shows as attempted: resource group and name of every \<^verbatim>\<open>Delete\<close>
  call on the managed-identity client, whatever its answer.
\<close>

fun attempted :: "trace \<Rightarrow> (string \<times> string) list" where
  "attempted [] = []"
| "attempted (IdentityDelete ctx rg n r # evs) = (rg, n) # attempted evs"
| "attempted (ev # evs) = attempted evs"

text \<open>No \<^verbatim>\<open>Delete\<close> call on the managed-identity client was answered with an error.\<close>

fun failedDelete :: "event \<Rightarrow> bool" where
  "failedDelete (IdentityDelete ctx rg n (Some err)) = True"
| "failedDelete ev = False"

subsection \<open>Example runs\<close>

text \<open>
  The spec's end-to-end scenario: the name \<^verbatim>\<open>cluster1\<close>, no overrides, and a resource
  group that lists the tagged identities \<open>a\<close> and \<open>c\<close> and the untagged \<open>b\<close>, on two pages.
\<close>

definition exampleKey :: string where
  "exampleKey = ''openshift.io_cloud-credential-operator_cluster1''"

definition identityA :: Identity where
  "identityA = \<lparr>idName = Some ''a'', idID = Some ''/ids/a'', idType = Some ''uai'',
     idTags = [exampleKey \<mapsto> Some ''owned'']\<rparr>"

definition identityB :: Identity where
  "identityB = \<lparr>idName = Some ''b'', idID = Some ''/ids/b'', idType = Some ''uai'',
     idTags = Map.empty\<rparr>"

definition identityC :: Identity where
  "identityC = \<lparr>idName = Some ''c'', idID = Some ''/ids/c'', idType = Some ''uai'',
     idTags = [exampleKey \<mapsto> Some ''owned'', ''team'' \<mapsto> Some ''infra'']\<rparr>"

text \<open>An owned identity whose \<^verbatim>\<open>Type\<close> pointer is nil.\<close>

definition identityNoType :: Identity where
  "identityNoType = \<lparr>idName = Some ''a'', idID = Some ''/ids/a'', idType = None,
     idTags = [exampleKey \<mapsto> Some ''owned'']\<rparr>"

text \<open>An owned identity whose \<^verbatim>\<open>Name\<close> pointer is nil.\<close>

definition identityNoName :: Identity where
  "identityNoName = \<lparr>idName = None, idID = Some ''/ids/x'', idType = Some ''uai'',
     idTags = [exampleKey \<mapsto> Some ''owned'']\<rparr>"

text \<open>An identity whose tag map holds the key with a nil value.\<close>

definition identityNilTag :: Identity where
  "identityNilTag = \<lparr>idName = Some ''n'', idID = Some ''/ids/n'', idType = Some ''uai'',
     idTags = [exampleKey \<mapsto> None]\<rparr>"

text \<open>
  A client whose answers do not depend on the history: the pages of the listing, the
  answer to the deletion of each identity name, and the answers of \<^verbatim>\<open>BeginDelete\<close>,
  \<^verbatim>\<open>PollUntilDone\<close> and the storage-account \<^verbatim>\<open>Delete\<close>.
\<close>

definition scripted :: "page list \<Rightarrow> (string \<Rightarrow> error option) \<Rightarrow> error option \<Rightarrow> error option
    \<Rightarrow> error option \<Rightarrow> client" where
  "scripted pages del begun polled stored =
     \<lparr>listPages = (\<lambda>h rg. pages), identityDelete = (\<lambda>h rg n. del n),
      beginDelete = (\<lambda>h rg. begun), pollUntilDone = (\<lambda>h rg. polled),
      storageDelete = (\<lambda>h rg a. stored)\<rparr>"

definition examplePages :: "page list" where
  "examplePages = [Inr [Some identityA, Some identityB], Inr [Some identityC]]"

definition okClient :: client where
  "okClient = scripted examplePages (\<lambda>n. None) None None None"

definition exampleEnv :: "client \<Rightarrow> env" where
  "exampleEnv c = \<lparr>newDefaultAzureCredential = None, newAzureClientWrapper = (\<lambda>s. Inr c)\<rparr>"

definition exampleOpts :: azureOptions where
  "exampleOpts = \<lparr>Name = ''cluster1'', Region = ''eastus'', SubscriptionID = ''sub-1'',
     OIDCResourceGroupName = [], StorageAccountName = [],
     DeleteOIDCResourceGroup = False, DryRun = False\<rparr>"

lemmas example_defs =
  exampleKey_def identityA_def identityB_def identityC_def identityNoType_def
  identityNilTag_def identityNoName_def scripted_def examplePages_def okClient_def
  exampleEnv_def exampleOpts_def

lemmas model_defs =
  deleteCmd_def deletePaths_def deleteManagedIdentities_def deleteResourceGroup_def
  deleteStorageAccount_def defaultOIDCResourceGroupName_def defaultStorageAccountName_def
  validateStorageAccountName_def hasOwnedTag_def ownedAzureResourceTagKeyPrefix_def
  ownedAzureResourceTagValue_def oidcResourceGroupSuffix_def Second_def Let_def

section \<open>Properties of the loops\<close>

lemma hasOwnedTag_True:
  "hasOwnedTag k i = Return True \<longleftrightarrow> idTags i k = Some (Some ownedAzureResourceTagValue)"
  by (auto simp: hasOwnedTag_def split: option.splits)

lemma hasOwnedTag_False:
  "hasOwnedTag k i = Return False \<longleftrightarrow>
     idTags i k = None \<or> (\<exists>v. idTags i k = Some (Some v) \<and> v \<noteq> ownedAzureResourceTagValue)"
  by (auto simp: hasOwnedTag_def split: option.splits)

lemma hasOwnedTag_Panic: "hasOwnedTag k i = Panic \<longleftrightarrow> idTags i k = Some None"
  by (auto simp: hasOwnedTag_def split: option.splits)

lemma filterPage_wellTagged:
  "list_all (wellTagged k) vs \<Longrightarrow>
     filterPage k vs acc = Return (acc @ filter (selected k) (entries vs))"
proof (induction vs arbitrary: acc)
  case Nil
  then show ?case by simp
next
  case (Cons v vs)
  then obtain i where v: "v = Some i" and t: "idTags i k \<noteq> Some None"
    by (cases v) auto
  from Cons have rest: "list_all (wellTagged k) vs" by simp
  show ?case
  proof (cases "selected k i")
    case True
    then have "hasOwnedTag k i = Return True"
      by (simp add: hasOwnedTag_True selected_def)
    with True v Cons.IH [OF rest] show ?thesis by simp
  next
    case False
    with t have "hasOwnedTag k i = Return False"
      by (auto simp: hasOwnedTag_def selected_def split: option.splits)
    with False v Cons.IH [OF rest] show ?thesis by simp
  qed
qed

lemma filterPage_Panic:
  "\<not> list_all (wellTagged k) vs \<Longrightarrow> filterPage k vs acc = Panic"
proof (induction vs arbitrary: acc)
  case Nil
  then show ?case by simp
next
  case (Cons v vs)
  show ?case
  proof (cases v)
    case None
    then show ?thesis by simp
  next
    case (Some i)
    show ?thesis
    proof (cases "hasOwnedTag k i")
      case Panic
      with Some show ?thesis by simp
    next
      case (Return b)
      then have "idTags i k \<noteq> Some None"
        by (auto simp: hasOwnedTag_def split: option.splits)
      with Cons.prems Some have "\<not> list_all (wellTagged k) vs" by simp
      from Cons.IH [OF this] Some Return show ?thesis by (cases b) simp_all
    qed
  qed
qed

lemma listLoop_events: "ev \<in> set (fst (listLoop k rg ps acc)) \<Longrightarrow> isNextPage ev"
  by (induction k rg ps acc rule: listLoop.induct)
     (auto split: outcome.splits prod.splits)

lemma listLoop_wellTagged:
  "list_all (wellTagged k) (fetched ps) \<Longrightarrow>
     snd (listLoop k rg ps acc) =
       (case fetchError ps of
          Some e \<Rightarrow> Return (Inl e)
        | None \<Rightarrow> Return (Inr (acc @ filter (selected k) (entries (fetched ps)))))"
proof (induction k rg ps acc rule: listLoop.induct)
  case (3 k rg v pages acc)
  from "3.prems" have v: "list_all (wellTagged k) v" and r: "list_all (wellTagged k) (fetched pages)"
    by simp_all
  have e: "entries (v @ fetched pages) = entries v @ entries (fetched pages)" for v
    by (induction v rule: entries.induct) simp_all
  from "3.IH" [OF filterPage_wellTagged [OF v] r] filterPage_wellTagged [OF v, of acc]
  show ?case
    by (auto simp: e split: prod.splits option.splits)
qed simp_all

lemma listLoop_Panic:
  "\<not> list_all (wellTagged k) (fetched ps) \<Longrightarrow> snd (listLoop k rg ps acc) = Panic"
proof (induction k rg ps acc rule: listLoop.induct)
  case (3 k rg v pages acc)
  show ?case
  proof (cases "list_all (wellTagged k) v")
    case True
    with "3.prems" have "\<not> list_all (wellTagged k) (fetched pages)" by simp
    from "3.IH" [OF filterPage_wellTagged [OF True] this] filterPage_wellTagged [OF True, of acc]
    show ?thesis by (auto split: prod.splits)
  next
    case False
    then show ?thesis by (simp add: filterPage_Panic)
  qed
qed simp_all

lemma listLoop_append:
  "listLoop k rg ps acc = (evs, Return (Inr acc')) \<Longrightarrow>
     listLoop k rg (ps @ qs) acc = (case listLoop k rg qs acc' of (evs', r) \<Rightarrow> (evs @ evs', r))"
  by (induction k rg ps acc arbitrary: evs rule: listLoop.induct)
     (auto split: outcome.splits prod.splits)

lemma listLoop_failed_fetch:
  "NextPage rg' (Inl e) \<in> set (fst (listLoop k rg ps acc)) \<Longrightarrow>
     listLoop k rg ps acc = (fst (listLoop k rg ps acc), Return (Inl e))
     \<and> last (fst (listLoop k rg ps acc)) = NextPage rg' (Inl e)"
  by (induction k rg ps acc rule: listLoop.induct)
     (auto split: outcome.splits prod.splits)

lemma deleteLoop_events:
  "ev \<in> set (fst (deleteLoop c rg ids h)) \<Longrightarrow> isIdentityDelete ev \<or> isLog ev"
  by (induction ids arbitrary: h)
     (auto simp: Let_def split_beta split: option.splits)

lemma deleteLoop_failed_delete:
  "IdentityDelete ctx rg' n (Some e) \<in> set (fst (deleteLoop c rg ids h)) \<Longrightarrow>
     snd (deleteLoop c rg ids h) = Return (Some e)
     \<and> last (fst (deleteLoop c rg ids h)) = IdentityDelete ctx rg' n (Some e)"
  by (induction ids arbitrary: h)
     (auto simp: Let_def split_beta split: option.splits)

lemma deleteLoop_no_Panic:
  "list_all pointersPresent ids \<Longrightarrow> snd (deleteLoop c rg ids h) \<noteq> Panic"
  by (induction ids arbitrary: h)
     (auto simp: Let_def split_beta pointersPresent_def split: option.splits)

lemma deleteLoop_Panic:
  "\<not> list_all pointersPresent ids \<Longrightarrow> (\<And>h n. identityDelete c h rg n = None) \<Longrightarrow>
     snd (deleteLoop c rg ids h) = Panic"
  by (induction ids arbitrary: h)
     (auto simp: Let_def split_beta pointersPresent_def split: option.splits)

lemma deleteLoop_complete:
  "snd (deleteLoop c rg ids h) = Return None \<Longrightarrow>
     deleted (fst (deleteLoop c rg ids h)) = map (\<lambda>i. (rg, the (idName i))) ids"
  by (induction ids arbitrary: h)
     (auto simp: Let_def split_beta split: option.splits)

lemma listLoop_complete_events:
  "fetchError ps = None \<Longrightarrow> list_all (wellTagged k) (fetched ps) \<Longrightarrow>
     fst (listLoop k rg ps acc) = map (NextPage rg) ps"
proof (induction k rg ps acc rule: listLoop.induct)
  case (3 k rg v pages acc)
  from "3.prems" have v: "list_all (wellTagged k) v"
    and r: "list_all (wellTagged k) (fetched pages)" and f: "fetchError pages = None"
    by simp_all
  from "3.IH" [OF filterPage_wellTagged [OF v] f r] filterPage_wellTagged [OF v, of acc]
  show ?case by (simp add: split_beta)
qed simp_all

section \<open>Properties of the functions\<close>

lemma deleteManagedIdentities_events:
  assumes "ev \<in> set (fst (deleteManagedIdentities c name rg s r h))"
  shows "isNextPage ev \<or> isIdentityDelete ev \<or> isLog ev"
proof -
  let ?k = "ownedAzureResourceTagKeyPrefix @ ''_'' @ name"
  obtain evs res where L: "listLoop ?k rg (listPages c h rg) [] = (evs, res)"
    by (cases "listLoop ?k rg (listPages c h rg) []")
  have N: "x \<in> set evs \<Longrightarrow> isNextPage x" for x
    using listLoop_events [of x ?k rg "listPages c h rg" "[]"] L by simp
  show ?thesis
  proof (cases res)
    case Panic
    with assms L N show ?thesis by (auto simp: deleteManagedIdentities_def Let_def)
  next
    case (Return y)
    show ?thesis
    proof (cases y)
      case (Inl err)
      with assms L N Return show ?thesis by (auto simp: deleteManagedIdentities_def Let_def)
    next
      case (Inr ids)
      with assms L N Return deleteLoop_events [of ev c rg ids "h @ evs"] show ?thesis
        by (auto simp: deleteManagedIdentities_def Let_def split_beta split: if_splits)
    qed
  qed
qed

lemma deleteResourceGroup_events:
  "ev \<in> set (fst (deleteResourceGroup c rg h)) \<Longrightarrow> isGroupDelete ev \<or> isLog ev"
  by (auto simp: deleteResourceGroup_def Let_def split: option.splits)

lemma deleteStorageAccount_events:
  "\<exists>r l. fst (deleteStorageAccount c rg a h) = StorageDelete Background rg a r # l
     \<and> list_all isLog l"
  by (auto simp: deleteStorageAccount_def Let_def split: option.splits)

lemma defaulted_OIDCResourceGroupName:
  "OIDCResourceGroupName (defaulted opts) =
     (if OIDCResourceGroupName opts = [] then Name opts @ oidcResourceGroupSuffix
      else OIDCResourceGroupName opts)"
  by (simp add: defaulted_def defaultOIDCResourceGroupName_def
        defaultStorageAccountName_def Let_def)

lemma defaulted_StorageAccountName:
  "StorageAccountName (defaulted opts) =
     (if StorageAccountName opts = [] then Name opts else StorageAccountName opts)"
  by (simp add: defaulted_def defaultOIDCResourceGroupName_def
        defaultStorageAccountName_def Let_def)

lemma defaulted_unchanged:
  "Name (defaulted opts) = Name opts"
  "Region (defaulted opts) = Region opts"
  "SubscriptionID (defaulted opts) = SubscriptionID opts"
  "DeleteOIDCResourceGroup (defaulted opts) = DeleteOIDCResourceGroup opts"
  "DryRun (defaulted opts) = DryRun opts"
  by (simp_all add: defaulted_def defaultOIDCResourceGroupName_def
        defaultStorageAccountName_def Let_def)

lemma preamble_events:
  "ev \<in> set (preamble opts) \<Longrightarrow>
     \<not> isNextPage ev \<and> \<not> isIdentityDelete ev \<and> \<not> isStorageDelete ev \<and> \<not> isGroupDelete ev"
  by (auto simp: preamble_def defaultOIDCResourceGroupName_def
        defaultStorageAccountName_def Let_def split: if_splits)

lemma deleteCmd_no_credential:
  "newDefaultAzureCredential e = Some err \<Longrightarrow>
     deleteCmd e opts = (opts, [NewDefaultAzureCredential (Some err)], Fatal err)"
  by (simp add: deleteCmd_def)

lemma deleteCmd_no_client:
  "newDefaultAzureCredential e = None \<Longrightarrow>
   newAzureClientWrapper e (SubscriptionID opts) = Inl err \<Longrightarrow>
     deleteCmd e opts =
       (opts,
        [NewDefaultAzureCredential None, NewAzureClientWrapper (SubscriptionID opts) (Some err)],
        Fatal (Error ''Failed to create Azure client''))"
  by (simp add: deleteCmd_def)

lemma deleteCmd_client:
  "newDefaultAzureCredential e = None \<Longrightarrow>
   newAzureClientWrapper e (SubscriptionID opts) = Inr c \<Longrightarrow>
     deleteCmd e opts =
       (defaulted opts,
        preamble opts @ fst (deletePaths c (defaulted opts) (preamble opts)),
        snd (deletePaths c (defaulted opts) (preamble opts)))"
  by (simp add: deleteCmd_def defaulted_def preamble_def Let_def split_beta)

lemma deletePaths_group:
  "validateStorageAccountName (StorageAccountName opts) = None \<Longrightarrow>
   DeleteOIDCResourceGroup opts \<Longrightarrow>
     deletePaths c opts h =
       (fst (deleteResourceGroup c (OIDCResourceGroupName opts) h),
        case snd (deleteResourceGroup c (OIDCResourceGroupName opts) h) of
          None \<Rightarrow> Completed | Some err \<Rightarrow> Fatal err)"
  by (simp add: deletePaths_def split_beta split: option.splits)

lemma deletePaths_group_events:
  "DeleteOIDCResourceGroup opts \<Longrightarrow> ev \<in> set (fst (deletePaths c opts h)) \<Longrightarrow>
     isGroupDelete ev \<or> isLog ev"
  using deleteResourceGroup_events [of ev c "OIDCResourceGroupName opts" h]
  by (cases "validateStorageAccountName (StorageAccountName opts)")
     (auto simp: deletePaths_def split_beta split: option.splits)

lemma deletePaths_group_exit:
  "DeleteOIDCResourceGroup opts \<Longrightarrow> snd (deletePaths c opts h) \<noteq> Panicked"
  by (auto simp: deletePaths_def split_beta split: option.splits)

lemma listLoop_selected:
  assumes "snd (listLoop k rg pages []) = Return (Inr ids)"
  shows "ids = filter (selected k) (entries (fetched pages))"
proof -
  from assms have w: "list_all (wellTagged k) (fetched pages)"
    using listLoop_Panic [of k pages rg "[]"] by auto
  from listLoop_wellTagged [OF w, of rg "[]"] assms show ?thesis
    by (simp split: option.splits)
qed

lemma deletePaths_DryRun:
  "deletePaths c (opts\<lparr>DryRun := b\<rparr>) h = deletePaths c opts h"
  by (cases "validateStorageAccountName (StorageAccountName opts)")
     (simp_all add: deletePaths_def)

lemma deleteManagedIdentities_unused_arguments:
  "deleteManagedIdentities c name rg s r h = deleteManagedIdentities c name rg s' r' h"
  by (simp add: deleteManagedIdentities_def)

lemma deletePaths_Region:
  "deletePaths c (opts\<lparr>Region := r\<rparr>) h = deletePaths c opts h"
  using deleteManagedIdentities_unused_arguments
    [of c "Name opts" "OIDCResourceGroupName opts" "SubscriptionID opts" r h
        "SubscriptionID opts" "Region opts"]
  by (cases "validateStorageAccountName (StorageAccountName opts)")
     (simp_all add: deletePaths_def)

lemma example_identities:
  "deleteManagedIdentities okClient ''cluster1'' ''cluster1-oidc'' ''sub-1'' ''eastus'' [] =
     ([NextPage ''cluster1-oidc'' (Inr [Some identityA, Some identityB]),
       NextPage ''cluster1-oidc'' (Inr [Some identityC]),
       IdentityDelete Background ''cluster1-oidc'' ''a'' None,
       Log ''Deleted uai /ids/a'',
       IdentityDelete Background ''cluster1-oidc'' ''c'' None,
       Log ''Deleted uai /ids/c''],
      Return None)"
  by (simp add: example_defs model_defs)

lemma example_run:
  "snd (deleteCmd (exampleEnv okClient) exampleOpts) =
     ([NewDefaultAzureCredential None,
       NewAzureClientWrapper ''sub-1'' None,
       Log ''No --oidc-resource-group-name provided, defaulting OIDC resource group name to cluster1-oidc'',
       Log ''No --storage-account-name provided, defaulting storage account name to cluster1'',
       NextPage ''cluster1-oidc'' (Inr [Some identityA, Some identityB]),
       NextPage ''cluster1-oidc'' (Inr [Some identityC]),
       IdentityDelete Background ''cluster1-oidc'' ''a'' None,
       Log ''Deleted uai /ids/a'',
       IdentityDelete Background ''cluster1-oidc'' ''c'' None,
       Log ''Deleted uai /ids/c'',
       StorageDelete Background ''cluster1-oidc'' ''cluster1'' None,
       Log ''Deleted storage account cluster1''],
      Completed)"
  by (simp add: example_defs model_defs)

lemma defaulted_DryRun: "defaulted (opts\<lparr>DryRun := b\<rparr>) = (defaulted opts)\<lparr>DryRun := b\<rparr>"
  by (simp add: defaulted_def defaultOIDCResourceGroupName_def defaultStorageAccountName_def
        Let_def)

lemma preamble_DryRun: "preamble (opts\<lparr>DryRun := b\<rparr>) = preamble opts"
  by (simp add: preamble_def defaultOIDCResourceGroupName_def defaultStorageAccountName_def
        Let_def)

lemma defaulted_Region: "defaulted (opts\<lparr>Region := r\<rparr>) = (defaulted opts)\<lparr>Region := r\<rparr>"
  by (simp add: defaulted_def defaultOIDCResourceGroupName_def defaultStorageAccountName_def
        Let_def)

lemma preamble_Region: "preamble (opts\<lparr>Region := r\<rparr>) = preamble opts"
  by (simp add: preamble_def defaultOIDCResourceGroupName_def defaultStorageAccountName_def
        Let_def)

lemma deleteCmd_cases:
  obtains (credential) err where "newDefaultAzureCredential e = Some err"
  | (client) err where "newDefaultAzureCredential e = None"
      "newAzureClientWrapper e (SubscriptionID opts) = Inl err"
  | (run) c where "newDefaultAzureCredential e = None"
      "newAzureClientWrapper e (SubscriptionID opts) = Inr c"
  by (cases "newDefaultAzureCredential e"; cases "newAzureClientWrapper e (SubscriptionID opts)")
     auto

lemma listLoop_complete:
  assumes "fetchError ps = None" and "list_all (wellTagged k) (fetched ps)"
  shows "listLoop k rg ps acc =
     (map (NextPage rg) ps, Return (Inr (acc @ filter (selected k) (entries (fetched ps)))))"
  using listLoop_complete_events [OF assms, of rg acc] listLoop_wellTagged [OF assms(2), of rg acc]
    assms(1)
  by (simp add: prod_eq_iff)

lemma deleteManagedIdentities_Panic:
  "listLoop (ownedAzureResourceTagKeyPrefix @ ''_'' @ name) rg (listPages c h rg) [] = (evs, Panic)
   \<Longrightarrow> deleteManagedIdentities c name rg s r h = (evs, Panic)"
  by (simp add: deleteManagedIdentities_def Let_def)

lemma deleteManagedIdentities_fetch_failed:
  "listLoop (ownedAzureResourceTagKeyPrefix @ ''_'' @ name) rg (listPages c h rg) []
     = (evs, Return (Inl err))
   \<Longrightarrow> deleteManagedIdentities c name rg s r h = (evs, Return (Some err))"
  by (simp add: deleteManagedIdentities_def Let_def)

lemma deleteManagedIdentities_none_owned:
  "listLoop (ownedAzureResourceTagKeyPrefix @ ''_'' @ name) rg (listPages c h rg) []
     = (evs, Return (Inr []))
   \<Longrightarrow> deleteManagedIdentities c name rg s r h =
       (evs @ [Log (''Found no user-assigned managed identities with tag key=''
                 @ (ownedAzureResourceTagKeyPrefix @ ''_'' @ name)
                 @ '', value='' @ ownedAzureResourceTagValue)],
        Return None)"
  by (simp add: deleteManagedIdentities_def Let_def)

lemma deleteManagedIdentities_some_owned:
  "listLoop (ownedAzureResourceTagKeyPrefix @ ''_'' @ name) rg (listPages c h rg) []
     = (evs, Return (Inr ids))
   \<Longrightarrow> ids \<noteq> []
   \<Longrightarrow> deleteManagedIdentities c name rg s r h =
       (evs @ fst (deleteLoop c rg ids (h @ evs)), snd (deleteLoop c rg ids (h @ evs)))"
  by (simp add: deleteManagedIdentities_def Let_def split_beta)

lemma deleteManagedIdentities_cases:
  obtains (panic) evs where
      "listLoop (ownedAzureResourceTagKeyPrefix @ ''_'' @ name) rg (listPages c h rg) []
         = (evs, Panic)"
  | (failed) evs err where
      "listLoop (ownedAzureResourceTagKeyPrefix @ ''_'' @ name) rg (listPages c h rg) []
         = (evs, Return (Inl err))"
  | (none) evs where
      "listLoop (ownedAzureResourceTagKeyPrefix @ ''_'' @ name) rg (listPages c h rg) []
         = (evs, Return (Inr []))"
  | (some) evs ids where
      "listLoop (ownedAzureResourceTagKeyPrefix @ ''_'' @ name) rg (listPages c h rg) []
         = (evs, Return (Inr ids))" "ids \<noteq> []"
proof -
  obtain evs res where
    L: "listLoop (ownedAzureResourceTagKeyPrefix @ ''_'' @ name) rg (listPages c h rg) []
          = (evs, res)"
    by (cases "listLoop (ownedAzureResourceTagKeyPrefix @ ''_'' @ name) rg (listPages c h rg) []")
  show thesis
  proof (cases res)
    case Panic
    with L panic show ?thesis by simp
  next
    case (Return y)
    show ?thesis
    proof (cases y)
      case (Inl err)
      with L Return failed show ?thesis by simp
    next
      case (Inr ids)
      with L Return none some show ?thesis by (cases "ids = []") simp_all
    qed
  qed
qed

lemma listLoop_events_fst:
  "listLoop k rg ps acc = (evs, res) \<Longrightarrow> ev \<in> set evs \<Longrightarrow> isNextPage ev"
  using listLoop_events [of ev k rg ps acc] by simp

lemma listLoop_failed_fetch_fst:
  "listLoop k rg ps acc = (evs, res) \<Longrightarrow> NextPage rg' (Inl e) \<in> set evs \<Longrightarrow>
     res = Return (Inl e) \<and> last evs = NextPage rg' (Inl e)"
  using listLoop_failed_fetch [of rg' e k rg ps acc] by simp

lemma deleteManagedIdentities_failed_fetch:
  assumes "NextPage rg' (Inl err) \<in> set (fst (deleteManagedIdentities c name rg s r h))"
  shows "snd (deleteManagedIdentities c name rg s r h) = Return (Some err)
     \<and> last (fst (deleteManagedIdentities c name rg s r h)) = NextPage rg' (Inl err)
     \<and> (\<forall>ev \<in> set (fst (deleteManagedIdentities c name rg s r h)). \<not> isIdentityDelete ev)"
proof (cases rule: deleteManagedIdentities_cases [where name = name and rg = rg and c = c and h = h])
  case (panic evs)
  with assms listLoop_failed_fetch_fst [OF panic, of rg' err] show ?thesis
    by (simp add: deleteManagedIdentities_Panic)
next
  case (failed evs e)
  have "\<not> isIdentityDelete ev" if "ev \<in> set evs" for ev
    using listLoop_events_fst [OF failed that] by (cases ev) simp_all
  with assms listLoop_failed_fetch_fst [OF failed, of rg' err] failed show ?thesis
    by (simp add: deleteManagedIdentities_fetch_failed)
next
  case (none evs)
  with assms listLoop_failed_fetch_fst [OF none, of rg' err] show ?thesis
    by (simp add: deleteManagedIdentities_none_owned)
next
  case (some evs ids)
  from assms have "NextPage rg' (Inl err) \<in> set evs"
    using deleteLoop_events [of "NextPage rg' (Inl err)" c rg ids "h @ evs"]
    by (auto simp: deleteManagedIdentities_some_owned [OF some])
  with listLoop_failed_fetch_fst [OF some(1), of rg' err] show ?thesis by simp
qed

lemma deleteManagedIdentities_no_Panic:
  assumes w: "list_all (wellTagged (ownedAzureResourceTagKeyPrefix @ ''_'' @ name))
        (fetched (listPages c h rg))"
    and p: "list_all pointersPresent
        (filter (selected (ownedAzureResourceTagKeyPrefix @ ''_'' @ name))
           (entries (fetched (listPages c h rg))))"
  shows "snd (deleteManagedIdentities c name rg s r h) \<noteq> Panic"
proof (cases rule: deleteManagedIdentities_cases [where name = name and rg = rg and c = c and h = h])
  case (panic evs)
  with listLoop_wellTagged [OF w, of rg "[]"] show ?thesis
    by (simp split: option.splits)
next
  case (failed evs err)
  then show ?thesis by (simp add: deleteManagedIdentities_fetch_failed)
next
  case (none evs)
  then show ?thesis by (simp add: deleteManagedIdentities_none_owned)
next
  case (some evs ids)
  from some(1) have "ids = filter (selected (ownedAzureResourceTagKeyPrefix @ ''_'' @ name))
      (entries (fetched (listPages c h rg)))"
    by (intro listLoop_selected [where rg = rg]) simp
  with p have "list_all pointersPresent ids" by simp
  from deleteLoop_no_Panic [OF this] show ?thesis
    by (simp add: deleteManagedIdentities_some_owned [OF some])
qed

lemma deleteManagedIdentities_Panic_tags:
  assumes "\<not> list_all (wellTagged (ownedAzureResourceTagKeyPrefix @ ''_'' @ name))
        (fetched (listPages c h rg))"
  shows "snd (deleteManagedIdentities c name rg s r h) = Panic"
proof -
  from listLoop_Panic [OF assms, of rg "[]"]
  have "listLoop (ownedAzureResourceTagKeyPrefix @ ''_'' @ name) rg (listPages c h rg) [] =
      (fst (listLoop (ownedAzureResourceTagKeyPrefix @ ''_'' @ name) rg (listPages c h rg) []),
       Panic)"
    by (simp add: prod_eq_iff)
  from deleteManagedIdentities_Panic [OF this] show ?thesis by simp
qed

lemma deleteManagedIdentities_Panic_pointers:
  assumes f: "fetchError (listPages c h rg) = None"
    and d: "\<And>h' n. identityDelete c h' rg n = None"
    and p: "\<not> list_all pointersPresent
        (filter (selected (ownedAzureResourceTagKeyPrefix @ ''_'' @ name))
           (entries (fetched (listPages c h rg))))"
  shows "snd (deleteManagedIdentities c name rg s r h) = Panic"
proof (cases "list_all (wellTagged (ownedAzureResourceTagKeyPrefix @ ''_'' @ name))
    (fetched (listPages c h rg))")
  case True
  let ?ids = "filter (selected (ownedAzureResourceTagKeyPrefix @ ''_'' @ name))
      (entries (fetched (listPages c h rg)))"
  from listLoop_complete [OF f True, of rg "[]"]
  have l: "listLoop (ownedAzureResourceTagKeyPrefix @ ''_'' @ name) rg (listPages c h rg) [] =
      (map (NextPage rg) (listPages c h rg), Return (Inr ?ids))"
    by simp
  from p have "?ids \<noteq> []" by auto
  from deleteManagedIdentities_some_owned [OF l this] deleteLoop_Panic [OF p d]
  show ?thesis by simp
next
  case False
  then show ?thesis by (rule deleteManagedIdentities_Panic_tags)
qed

lemma deleted_append: "deleted (xs @ ys) = deleted xs @ deleted ys"
  by (induction xs rule: deleted.induct) simp_all

lemma deleted_none: "(\<And>ev. ev \<in> set evs \<Longrightarrow> \<not> isIdentityDelete ev) \<Longrightarrow> deleted evs = []"
proof (induction evs)
  case Nil
  then show ?case by simp
next
  case (Cons ev evs)
  from Cons.prems have "\<not> isIdentityDelete ev" by simp
  moreover from Cons have "deleted evs = []" by simp
  ultimately show ?case by (cases ev) simp_all
qed

lemma split_at_marked:
  assumes "pre @ sd # l = xs @ ev # ys" and "P ev"
    and "\<forall>x \<in> set pre. \<not> P x" and "\<forall>x \<in> set l. \<not> P x"
  shows "xs = pre \<and> ev = sd \<and> ys = l"
  using assms
  by (auto simp: append_eq_append_conv2 append_eq_Cons_conv Cons_eq_append_conv)

lemma deleteManagedIdentities_failed_delete:
  assumes "IdentityDelete ctx rg' n (Some err)
      \<in> set (fst (deleteManagedIdentities c name rg s r h))"
  shows "snd (deleteManagedIdentities c name rg s r h) = Return (Some err)
     \<and> last (fst (deleteManagedIdentities c name rg s r h)) = IdentityDelete ctx rg' n (Some err)"
proof (cases rule: deleteManagedIdentities_cases [where name = name and rg = rg and c = c and h = h])
  case (panic evs)
  with assms listLoop_events_fst [OF panic, of "IdentityDelete ctx rg' n (Some err)"]
  show ?thesis by (simp add: deleteManagedIdentities_Panic)
next
  case (failed evs e)
  with assms listLoop_events_fst [OF failed, of "IdentityDelete ctx rg' n (Some err)"]
  show ?thesis by (simp add: deleteManagedIdentities_fetch_failed)
next
  case (none evs)
  with assms listLoop_events_fst [OF none, of "IdentityDelete ctx rg' n (Some err)"]
  show ?thesis by (simp add: deleteManagedIdentities_none_owned)
next
  case (some evs ids)
  let ?ev = "IdentityDelete ctx rg' n (Some err)"
  from assms listLoop_events_fst [OF some(1), of ?ev]
  have m: "?ev \<in> set (fst (deleteLoop c rg ids (h @ evs)))"
    by (auto simp: deleteManagedIdentities_some_owned [OF some])
  then have "fst (deleteLoop c rg ids (h @ evs)) \<noteq> []" by auto
  with deleteLoop_failed_delete [OF m] show ?thesis
    by (simp add: deleteManagedIdentities_some_owned [OF some])
qed

lemma deleteManagedIdentities_deleted:
  assumes "snd (deleteManagedIdentities c name rg s r h) = Return None"
  shows "deleted (fst (deleteManagedIdentities c name rg s r h)) =
     map (\<lambda>i. (rg, the (idName i)))
       (filter (selected (ownedAzureResourceTagKeyPrefix @ ''_'' @ name))
          (entries (fetched (listPages c h rg))))"
proof (cases rule: deleteManagedIdentities_cases [where name = name and rg = rg and c = c and h = h])
  case (panic evs)
  with assms show ?thesis by (simp add: deleteManagedIdentities_Panic)
next
  case (failed evs e)
  with assms show ?thesis by (simp add: deleteManagedIdentities_fetch_failed)
next
  case (none evs)
  have "\<not> isIdentityDelete ev" if "ev \<in> set evs" for ev
    using listLoop_events_fst [OF none that] by (cases ev) simp_all
  then have "deleted evs = []" by (rule deleted_none)
  moreover have "[] = filter (selected (ownedAzureResourceTagKeyPrefix @ ''_'' @ name))
      (entries (fetched (listPages c h rg)))"
    using none by (intro listLoop_selected [where rg = rg]) simp
  ultimately show ?thesis
    by (simp add: deleteManagedIdentities_none_owned [OF none] deleted_append)
next
  case (some evs ids)
  have "\<not> isIdentityDelete ev" if "ev \<in> set evs" for ev
    using listLoop_events_fst [OF some(1) that] by (cases ev) simp_all
  then have "deleted evs = []" by (rule deleted_none)
  moreover have "ids = filter (selected (ownedAzureResourceTagKeyPrefix @ ''_'' @ name))
      (entries (fetched (listPages c h rg)))"
    using some(1) by (intro listLoop_selected [where rg = rg]) simp
  moreover from assms have "snd (deleteLoop c rg ids (h @ evs)) = Return None"
    by (simp add: deleteManagedIdentities_some_owned [OF some])
  ultimately show ?thesis
    using deleteLoop_complete [of c rg ids "h @ evs"]
    by (simp add: deleteManagedIdentities_some_owned [OF some] deleted_append)
qed

lemma deletePaths_fine:
  "validateStorageAccountName (StorageAccountName opts) = None \<Longrightarrow>
   \<not> DeleteOIDCResourceGroup opts \<Longrightarrow>
   d = deleteManagedIdentities c (Name opts) (OIDCResourceGroupName opts) (SubscriptionID opts)
         (Region opts) h \<Longrightarrow>
     deletePaths c opts h =
       (case snd d of
          Panic \<Rightarrow> (fst d, Panicked)
        | Return (Some err) \<Rightarrow> (fst d, Fatal err)
        | Return None \<Rightarrow>
            (fst d @ fst (deleteStorageAccount c (OIDCResourceGroupName opts)
                            (StorageAccountName opts) (h @ fst d)),
             case snd (deleteStorageAccount c (OIDCResourceGroupName opts)
                         (StorageAccountName opts) (h @ fst d)) of
               None \<Rightarrow> Completed | Some err \<Rightarrow> Fatal err))"
  by (simp add: deletePaths_def split_beta split: outcome.splits option.splits)

lemma deleteCmd_trace_cases:
  obtains (quiet) "\<And>ev. ev \<in> set (fst (snd (deleteCmd e opts)))
        \<Longrightarrow> \<not> isStorageDelete ev \<and> \<not> isIdentityDelete ev"
  | (stopped) c where "newAzureClientWrapper e (SubscriptionID opts) = Inr c"
      "snd (identitiesCall c opts) \<noteq> Return None"
      "fst (snd (deleteCmd e opts)) = preamble opts @ fst (identitiesCall c opts)"
      "snd (snd (deleteCmd e opts)) =
         (case snd (identitiesCall c opts) of
            Panic \<Rightarrow> Panicked | Return None \<Rightarrow> Completed | Return (Some err) \<Rightarrow> Fatal err)"
  | (storage) c where "newAzureClientWrapper e (SubscriptionID opts) = Inr c"
      "snd (identitiesCall c opts) = Return None"
      "fst (snd (deleteCmd e opts)) =
         preamble opts @ fst (identitiesCall c opts)
           @ fst (storageCall c opts (fst (identitiesCall c opts)))"
proof (cases rule: deleteCmd_cases [where e = e and opts = opts])
  case (credential err)
  then show ?thesis by (intro quiet) (auto simp: deleteCmd_no_credential)
next
  case (client err)
  then show ?thesis by (intro quiet) (auto simp: deleteCmd_no_client)
next
  case (run c)
  note cmd = deleteCmd_client [OF run]
  show ?thesis
  proof (cases "validateStorageAccountName (StorageAccountName (defaulted opts))")
    case (Some err)
    then have "deletePaths c (defaulted opts) (preamble opts) = ([], Fatal err)"
      by (simp add: deletePaths_def)
    with preamble_events [of _ opts] show ?thesis
      by (intro quiet) (auto simp: cmd)
  next
    case None
    show ?thesis
    proof (cases "DeleteOIDCResourceGroup (defaulted opts)")
      case True
      have "\<not> isStorageDelete ev \<and> \<not> isIdentityDelete ev"
        if "ev \<in> set (fst (deletePaths c (defaulted opts) (preamble opts)))" for ev
        using deletePaths_group_events [OF True that] by (cases ev) simp_all
      with preamble_events [of _ opts] show ?thesis
        by (intro quiet) (auto simp: cmd)
    next
      case False
      have d: "identitiesCall c opts =
          deleteManagedIdentities c (Name (defaulted opts))
            (OIDCResourceGroupName (defaulted opts)) (SubscriptionID (defaulted opts))
            (Region (defaulted opts)) (preamble opts)"
        by (simp add: identitiesCall_def defaulted_unchanged)
      note paths = deletePaths_fine [OF None False d]
      show ?thesis
      proof (cases "snd (identitiesCall c opts) = Return None")
        case True
        with paths run show ?thesis
          by (intro storage [of c]) (simp_all add: cmd storageCall_def)
      next
        case False
        with paths run show ?thesis
          by (intro stopped [of c])
             (simp_all add: cmd split: outcome.splits option.splits)
      qed
    qed
  qed
qed

lemma identitiesCall_events:
  "ev \<in> set (fst (identitiesCall c opts)) \<Longrightarrow> \<not> isStorageDelete ev"
  using deleteManagedIdentities_events [of ev c "Name opts" "OIDCResourceGroupName (defaulted opts)"
      "SubscriptionID opts" "Region opts" "preamble opts"]
  by (cases ev) (simp_all add: identitiesCall_def)

lemma storageCall_events:
  obtains sd l where "fst (storageCall c opts evs) = sd # l" "isStorageDelete sd"
    "list_all isLog l"
  using deleteStorageAccount_events [of c "OIDCResourceGroupName (defaulted opts)"
      "StorageAccountName (defaulted opts)" "preamble opts @ evs"]
  by (auto simp: storageCall_def)

lemma isLog_others:
  "isLog ev \<Longrightarrow> \<not> isStorageDelete ev \<and> \<not> isIdentityDelete ev \<and> \<not> isNextPage ev"
  by (cases ev) simp_all

lemma deleteCmd_after_storage:
  assumes "fst (snd (deleteCmd e opts)) = xs @ ev # ys" and "isStorageDelete ev"
  shows "(\<forall>ev' \<in> set xs. \<not> isStorageDelete ev') \<and> list_all isLog ys"
proof (cases rule: deleteCmd_trace_cases [where e = e and opts = opts])
  case quiet
  from quiet [of ev] assms show ?thesis by simp
next
  case (stopped c)
  from assms stopped(3) have "ev \<in> set (preamble opts) \<or> ev \<in> set (fst (identitiesCall c opts))"
    by (metis Un_iff in_set_conv_decomp set_append)
  with preamble_events [of ev opts] identitiesCall_events [of ev c opts] assms(2)
  show ?thesis by auto
next
  case (storage c)
  obtain sd l where s: "fst (storageCall c opts (fst (identitiesCall c opts))) = sd # l"
    "isStorageDelete sd" "list_all isLog l"
    by (rule storageCall_events)
  let ?pre = "preamble opts @ fst (identitiesCall c opts)"
  have pre: "\<forall>x \<in> set ?pre. \<not> isStorageDelete x"
    using preamble_events [of _ opts] identitiesCall_events [of _ c opts] by auto
  have l: "\<forall>x \<in> set l. \<not> isStorageDelete x"
    using s(3) isLog_others by (auto simp: list_all_iff)
  from storage(3) s(1) assms(1) have "?pre @ sd # l = xs @ ev # ys" by simp
  from split_at_marked [OF this assms(2) pre l] pre s(3) show ?thesis by simp
qed

lemma deleteCmd_failed_delete:
  assumes "IdentityDelete ctx rg n (Some err) \<in> set (fst (snd (deleteCmd e opts)))"
  shows "snd (snd (deleteCmd e opts)) = Fatal err
     \<and> last (fst (snd (deleteCmd e opts))) = IdentityDelete ctx rg n (Some err)
     \<and> (\<forall>ev \<in> set (fst (snd (deleteCmd e opts))). \<not> isStorageDelete ev)"
proof (cases rule: deleteCmd_trace_cases [where e = e and opts = opts])
  case quiet
  from quiet [OF assms] show ?thesis by simp
next
  case (stopped c)
  let ?ev = "IdentityDelete ctx rg n (Some err)"
  from assms stopped(3) preamble_events [of ?ev opts]
  have m: "?ev \<in> set (fst (identitiesCall c opts))" by auto
  then have ne: "fst (identitiesCall c opts) \<noteq> []" by auto
  from m have "snd (identitiesCall c opts) = Return (Some err)
      \<and> last (fst (identitiesCall c opts)) = ?ev"
    unfolding identitiesCall_def by (rule deleteManagedIdentities_failed_delete)
  with stopped(3,4) ne preamble_events [of _ opts] identitiesCall_events [of _ c opts]
  show ?thesis by auto
next
  case (storage c)
  let ?ev = "IdentityDelete ctx rg n (Some err)"
  obtain sd l where s: "fst (storageCall c opts (fst (identitiesCall c opts))) = sd # l"
    "isStorageDelete sd" "list_all isLog l"
    by (rule storageCall_events)
  have "?ev \<noteq> sd" using s(2) by auto
  moreover have "?ev \<notin> set l" using s(3) isLog_others [of ?ev] by (auto simp: list_all_iff)
  ultimately have m: "?ev \<in> set (fst (identitiesCall c opts))"
    using assms storage(3) s(1) preamble_events [of ?ev opts] by auto
  then have "snd (identitiesCall c opts) = Return (Some err)"
    unfolding identitiesCall_def using deleteManagedIdentities_failed_delete by blast
  with storage(2) show ?thesis by simp
qed

lemma deleteCmd_deleted:
  assumes "newAzureClientWrapper e (SubscriptionID opts) = Inr c"
    and "ev \<in> set (fst (snd (deleteCmd e opts)))" and "isStorageDelete ev"
  shows "deleted (fst (snd (deleteCmd e opts))) =
     map (\<lambda>i. (OIDCResourceGroupName (defaulted opts), the (idName i)))
       (filter (selected (ownedAzureResourceTagKeyPrefix @ ''_'' @ Name opts))
          (entries (fetched (listPages c (preamble opts) (OIDCResourceGroupName (defaulted opts))))))"
proof (cases rule: deleteCmd_trace_cases [where e = e and opts = opts])
  case quiet
  from quiet [OF assms(2)] assms(3) show ?thesis by simp
next
  case (stopped c')
  from assms(2) stopped(3) preamble_events [of ev opts] identitiesCall_events [of ev c' opts]
    assms(3)
  show ?thesis by auto
next
  case (storage c')
  with assms(1) have c: "c' = c" by simp
  obtain sd l where s: "fst (storageCall c opts (fst (identitiesCall c opts))) = sd # l"
    "isStorageDelete sd" "list_all isLog l"
    by (rule storageCall_events)
  have "deleted (preamble opts) = []"
    using preamble_events [of _ opts] by (intro deleted_none) simp
  moreover have "\<not> isIdentityDelete sd"
    using s(2) by (cases sd) simp_all
  then have "deleted (sd # l) = []"
    using s(3) isLog_others by (intro deleted_none) (auto simp: list_all_iff)
  moreover from storage(2) have "deleted (fst (identitiesCall c opts)) =
      map (\<lambda>i. (OIDCResourceGroupName (defaulted opts), the (idName i)))
        (filter (selected (ownedAzureResourceTagKeyPrefix @ ''_'' @ Name opts))
          (entries (fetched (listPages c (preamble opts) (OIDCResourceGroupName (defaulted opts))))))"
    unfolding identitiesCall_def c by (rule deleteManagedIdentities_deleted)
  ultimately show ?thesis
    using storage(3) s(1) by (simp add: c deleted_append)
qed

lemma example_failed_run:
  "snd (deleteCmd
      (exampleEnv (scripted examplePages
         (\<lambda>n. if n = ''c'' then Some (Error ''AuthorizationFailed'') else None) None None None))
      exampleOpts) =
     ([NewDefaultAzureCredential None,
       NewAzureClientWrapper ''sub-1'' None,
       Log ''No --oidc-resource-group-name provided, defaulting OIDC resource group name to cluster1-oidc'',
       Log ''No --storage-account-name provided, defaulting storage account name to cluster1'',
       NextPage ''cluster1-oidc'' (Inr [Some identityA, Some identityB]),
       NextPage ''cluster1-oidc'' (Inr [Some identityC]),
       IdentityDelete Background ''cluster1-oidc'' ''a'' None,
       Log ''Deleted uai /ids/a'',
       IdentityDelete Background ''cluster1-oidc'' ''c'' (Some (Error ''AuthorizationFailed''))],
      Fatal (Error ''AuthorizationFailed''))"
  by (simp add: example_defs model_defs)

lemma attempted_append: "attempted (xs @ ys) = attempted xs @ attempted ys"
  by (induction xs rule: attempted.induct) simp_all

lemma attempted_none: "(\<And>ev. ev \<in> set evs \<Longrightarrow> \<not> isIdentityDelete ev) \<Longrightarrow> attempted evs = []"
proof (induction evs)
  case Nil
  then show ?case by simp
next
  case (Cons ev evs)
  from Cons.prems have "\<not> isIdentityDelete ev" by simp
  moreover from Cons have "attempted evs = []" by simp
  ultimately show ?case by (cases ev) simp_all
qed

lemma failedDelete_iff:
  "failedDelete ev \<longleftrightarrow> (\<exists>ctx rg n err. ev = IdentityDelete ctx rg n (Some err))"
  by (cases ev rule: failedDelete.cases) simp_all

lemma deleteLoop_attempted:
  "take (length (attempted (fst (deleteLoop c rg ids h)))) (map (\<lambda>i. (rg, the (idName i))) ids)
     = attempted (fst (deleteLoop c rg ids h))"
  by (induction ids arbitrary: h)
     (auto simp: Let_def split_beta split: option.splits)

lemma deleteLoop_Return_None:
  "snd (deleteLoop c rg ids h) = Return None \<Longrightarrow> list_all pointersPresent ids"
  by (induction ids arbitrary: h)
     (auto simp: Let_def split_beta pointersPresent_def split: option.splits)

lemma deleteLoop_Panic_unless_failed:
  "\<not> list_all pointersPresent ids \<Longrightarrow>
   \<not> list_ex failedDelete (fst (deleteLoop c rg ids h)) \<Longrightarrow>
     snd (deleteLoop c rg ids h) = Panic"
  by (induction ids arbitrary: h)
     (auto simp: Let_def split_beta pointersPresent_def split: option.splits)

lemma deleteLoop_failed_no_Panic:
  "list_ex failedDelete (fst (deleteLoop c rg ids h)) \<Longrightarrow>
     snd (deleteLoop c rg ids h) \<noteq> Panic"
  using deleteLoop_failed_delete [of _ _ _ _ c rg ids h]
  by (auto simp: list_ex_iff failedDelete_iff)

lemma listLoop_no_failedDelete:
  assumes "listLoop k rg ps acc = (evs, res)"
  shows "\<not> list_ex failedDelete evs"
proof
  note l = assms
  assume "list_ex failedDelete evs"
  then obtain ev where ev: "ev \<in> set evs" "failedDelete ev"
    by (auto simp: list_ex_iff)
  from listLoop_events_fst [OF l ev(1)] ev(2) show False
    by (cases ev) simp_all
qed

lemma deleteManagedIdentities_attempted:
  "take (length (attempted (fst (deleteManagedIdentities c name rg s r h))))
     (map (\<lambda>i. (rg, the (idName i)))
        (filter (selected (ownedAzureResourceTagKeyPrefix @ ''_'' @ name))
           (entries (fetched (listPages c h rg)))))
     = attempted (fst (deleteManagedIdentities c name rg s r h))"
proof (cases rule: deleteManagedIdentities_cases [where name = name and rg = rg and c = c and h = h])
  case (panic evs)
  have "\<not> isIdentityDelete ev" if "ev \<in> set evs" for ev
    using listLoop_events_fst [OF panic that] by (cases ev) simp_all
  then have "attempted evs = []" by (rule attempted_none)
  then show ?thesis by (simp add: deleteManagedIdentities_Panic [OF panic])
next
  case (failed evs err)
  have "\<not> isIdentityDelete ev" if "ev \<in> set evs" for ev
    using listLoop_events_fst [OF failed that] by (cases ev) simp_all
  then have "attempted evs = []" by (rule attempted_none)
  then show ?thesis by (simp add: deleteManagedIdentities_fetch_failed [OF failed])
next
  case (none evs)
  have "\<not> isIdentityDelete ev" if "ev \<in> set evs" for ev
    using listLoop_events_fst [OF none that] by (cases ev) simp_all
  then have "attempted evs = []" by (rule attempted_none)
  then show ?thesis
    by (simp add: deleteManagedIdentities_none_owned [OF none] attempted_append)
next
  case (some evs ids)
  have "\<not> isIdentityDelete ev" if "ev \<in> set evs" for ev
    using listLoop_events_fst [OF some(1) that] by (cases ev) simp_all
  then have "attempted evs = []" by (rule attempted_none)
  moreover have "ids = filter (selected (ownedAzureResourceTagKeyPrefix @ ''_'' @ name))
      (entries (fetched (listPages c h rg)))"
    using some(1) by (intro listLoop_selected [where rg = rg]) simp
  ultimately show ?thesis
    using deleteLoop_attempted [of c rg ids "h @ evs"]
    by (simp add: deleteManagedIdentities_some_owned [OF some] attempted_append)
qed

lemma deleteManagedIdentities_deleted_names:
  assumes "snd (deleteManagedIdentities c name rg s r h) = Return None"
  shows "(rg', n) \<in> set (deleted (fst (deleteManagedIdentities c name rg s r h))) \<longleftrightarrow>
     rg' = rg \<and> (\<exists>i \<in> set (entries (fetched (listPages c h rg))).
        selected (ownedAzureResourceTagKeyPrefix @ ''_'' @ name) i \<and> idName i = Some n)"
proof -
  let ?sel = "filter (selected (ownedAzureResourceTagKeyPrefix @ ''_'' @ name))
      (entries (fetched (listPages c h rg)))"
  have p: "list_all pointersPresent ?sel"
  proof (cases rule: deleteManagedIdentities_cases
      [where name = name and rg = rg and c = c and h = h])
    case (panic evs)
    with assms show ?thesis by (simp add: deleteManagedIdentities_Panic)
  next
    case (failed evs err)
    with assms show ?thesis by (simp add: deleteManagedIdentities_fetch_failed)
  next
    case (none evs)
    then have "[] = ?sel" by (intro listLoop_selected [where rg = rg]) simp
    then show ?thesis by simp
  next
    case (some evs ids)
    then have "ids = ?sel" by (intro listLoop_selected [where rg = rg]) simp
    moreover from assms have "snd (deleteLoop c rg ids (h @ evs)) = Return None"
      by (simp add: deleteManagedIdentities_some_owned [OF some])
    ultimately show ?thesis using deleteLoop_Return_None by blast
  qed
  have "the (idName i) = n \<longleftrightarrow> idName i = Some n" if "i \<in> set ?sel" for i
    using p that by (auto simp: list_all_iff pointersPresent_def)
  then show ?thesis
    unfolding deleteManagedIdentities_deleted [OF assms] by auto
qed

lemma deleteManagedIdentities_Panic_iff:
  "snd (deleteManagedIdentities c name rg s r h) = Panic \<longleftrightarrow>
     \<not> list_all (wellTagged (ownedAzureResourceTagKeyPrefix @ ''_'' @ name))
          (fetched (listPages c h rg))
     \<or> (fetchError (listPages c h rg) = None
        \<and> \<not> list_all pointersPresent
               (filter (selected (ownedAzureResourceTagKeyPrefix @ ''_'' @ name))
                  (entries (fetched (listPages c h rg))))
        \<and> \<not> list_ex failedDelete (fst (deleteManagedIdentities c name rg s r h)))"
proof (cases "list_all (wellTagged (ownedAzureResourceTagKeyPrefix @ ''_'' @ name))
    (fetched (listPages c h rg))")
  case False
  then show ?thesis by (simp add: deleteManagedIdentities_Panic_tags)
next
  case True
  let ?k = "ownedAzureResourceTagKeyPrefix @ ''_'' @ name"
  let ?sel = "filter (selected ?k) (entries (fetched (listPages c h rg)))"
  show ?thesis
  proof (cases "fetchError (listPages c h rg)")
    case (Some err)
    with listLoop_wellTagged [OF True, of rg "[]"]
    have "listLoop ?k rg (listPages c h rg) [] =
        (fst (listLoop ?k rg (listPages c h rg) []), Return (Inl err))"
      by (simp add: prod_eq_iff)
    from deleteManagedIdentities_fetch_failed [OF this] True Some show ?thesis by simp
  next
    case None
    from listLoop_complete [OF None True, of rg "[]"]
    have l: "listLoop ?k rg (listPages c h rg) [] =
        (map (NextPage rg) (listPages c h rg), Return (Inr ?sel))"
      by simp
    note quiet = listLoop_no_failedDelete [OF l]
    show ?thesis
    proof (cases "?sel = []")
      case e: True
      with l have "listLoop ?k rg (listPages c h rg) [] =
          (map (NextPage rg) (listPages c h rg), Return (Inr []))"
        by simp
      from deleteManagedIdentities_none_owned [OF this] True None e show ?thesis by simp
    next
      case ne: False
      note run = deleteManagedIdentities_some_owned [OF l ne]
      let ?dl = "deleteLoop c rg ?sel (h @ map (NextPage rg) (listPages c h rg))"
      have "snd ?dl = Panic \<longleftrightarrow>
          \<not> list_all pointersPresent ?sel \<and> \<not> list_ex failedDelete (fst ?dl)"
        using deleteLoop_no_Panic [of ?sel c rg] deleteLoop_failed_no_Panic [of c rg ?sel]
          deleteLoop_Panic_unless_failed [of ?sel c rg]
        by blast
      with True None quiet show ?thesis by (simp add: run)
    qed
  qed
qed

lemma deleteManagedIdentities_fetch_error:
  assumes "fetchError (listPages c h rg) = Some err"
    and "list_all (wellTagged (ownedAzureResourceTagKeyPrefix @ ''_'' @ name))
          (fetched (listPages c h rg))"
  shows "snd (deleteManagedIdentities c name rg s r h) = Return (Some err)"
proof -
  from listLoop_wellTagged [OF assms(2), of rg "[]"] assms(1)
  have "listLoop (ownedAzureResourceTagKeyPrefix @ ''_'' @ name) rg (listPages c h rg) [] =
      (fst (listLoop (ownedAzureResourceTagKeyPrefix @ ''_'' @ name) rg (listPages c h rg) []),
       Return (Inl err))"
    by (simp add: prod_eq_iff)
  from deleteManagedIdentities_fetch_failed [OF this] show ?thesis by simp
qed

lemma deleteManagedIdentities_nil_Name_first:
  assumes "fetchError (listPages c h rg) = None"
    and "list_all (wellTagged (ownedAzureResourceTagKeyPrefix @ ''_'' @ name))
          (fetched (listPages c h rg))"
    and "filter (selected (ownedAzureResourceTagKeyPrefix @ ''_'' @ name))
          (entries (fetched (listPages c h rg))) = i # rest"
    and "idName i = None"
  shows "deleteManagedIdentities c name rg s r h = (map (NextPage rg) (listPages c h rg), Panic)"
proof -
  from listLoop_complete [OF assms(1,2), of rg "[]"] assms(3)
  have l: "listLoop (ownedAzureResourceTagKeyPrefix @ ''_'' @ name) rg (listPages c h rg) [] =
      (map (NextPage rg) (listPages c h rg), Return (Inr (i # rest)))"
    by simp
  from deleteManagedIdentities_some_owned [OF l] assms(4) show ?thesis by simp
qed


lemma example_refused_run:
  "deleteManagedIdentities
     (scripted [Inr [Some identityNoType]] (\<lambda>n. Some (Error ''AuthorizationFailed''))
        None None None)
     ''cluster1'' ''cluster1-oidc'' ''sub-1'' ''eastus'' [] =
     ([NextPage ''cluster1-oidc'' (Inr [Some identityNoType]),
       IdentityDelete Background ''cluster1-oidc'' ''a'' (Some (Error ''AuthorizationFailed''))],
      Return (Some (Error ''AuthorizationFailed'')))"
  by (simp add: example_defs model_defs)

section \<open>The claims\<close>

text \<open>
  C1, path exclusivity. Whenever \<^verbatim>\<open>DeleteOIDCResourceGroup\<close> is set, whatever the other
  options and whatever the provider answers, a run of \<^verbatim>\<open>deleteCmd\<close> fetches no page of
  the identity listing, deletes no managed identity and no storage account, and does not
  panic. When the credential, the client and the name check succeed, the run is the
  preamble followed by exactly the events of \<^verbatim>\<open>deleteResourceGroup\<close> for the OIDC
  resource group; it then ends, normally if the deletion returned no error and fatally
  with that error otherwise.
\<close>

theorem deleteCmd_group_path_exclusive:
  assumes "DeleteOIDCResourceGroup opts"
  shows "(\<forall>ev \<in> set (fst (snd (deleteCmd e opts))).
            \<not> isNextPage ev \<and> \<not> isIdentityDelete ev \<and> \<not> isStorageDelete ev)
         \<and> snd (snd (deleteCmd e opts)) \<noteq> Panicked
         \<and> (newDefaultAzureCredential e = None
              \<and> newAzureClientWrapper e (SubscriptionID opts) = Inr c
              \<and> validateStorageAccountName (StorageAccountName (defaulted opts)) = None
            \<longrightarrow> snd (deleteCmd e opts) =
                  (preamble opts
                     @ fst (deleteResourceGroup c (OIDCResourceGroupName (defaulted opts))
                              (preamble opts)),
                   case snd (deleteResourceGroup c (OIDCResourceGroupName (defaulted opts))
                               (preamble opts)) of
                     None \<Rightarrow> Completed | Some err \<Rightarrow> Fatal err))"
proof -
  have flag: "DeleteOIDCResourceGroup (defaulted opts)"
    using assms by (simp add: defaulted_unchanged)
  have quiet: "\<not> isNextPage ev \<and> \<not> isIdentityDelete ev \<and> \<not> isStorageDelete ev"
    if "isGroupDelete ev \<or> isLog ev" for ev
    using that by (cases ev) simp_all
  have events: "\<forall>ev \<in> set (fst (snd (deleteCmd e opts))).
      \<not> isNextPage ev \<and> \<not> isIdentityDelete ev \<and> \<not> isStorageDelete ev"
    and exit: "snd (snd (deleteCmd e opts)) \<noteq> Panicked"
  proof -
    consider (cred) err where "newDefaultAzureCredential e = Some err"
      | (client) err where "newDefaultAzureCredential e = None"
          "newAzureClientWrapper e (SubscriptionID opts) = Inl err"
      | (run) c' where "newDefaultAzureCredential e = None"
          "newAzureClientWrapper e (SubscriptionID opts) = Inr c'"
      by (cases "newDefaultAzureCredential e"; cases "newAzureClientWrapper e (SubscriptionID opts)")
         auto
    then have "(\<forall>ev \<in> set (fst (snd (deleteCmd e opts))).
        \<not> isNextPage ev \<and> \<not> isIdentityDelete ev \<and> \<not> isStorageDelete ev)
      \<and> snd (snd (deleteCmd e opts)) \<noteq> Panicked"
    proof cases
      case cred
      then show ?thesis by (simp add: deleteCmd_no_credential)
    next
      case client
      then show ?thesis by (simp add: deleteCmd_no_client)
    next
      case run
      have "\<not> isNextPage ev \<and> \<not> isIdentityDelete ev \<and> \<not> isStorageDelete ev"
        if "ev \<in> set (fst (deletePaths c' (defaulted opts) (preamble opts)))" for ev
        using deletePaths_group_events [OF flag that] by (rule quiet)
      with run preamble_events [of _ opts] deletePaths_group_exit [OF flag]
      show ?thesis by (auto simp: deleteCmd_client)
    qed
    then show "\<forall>ev \<in> set (fst (snd (deleteCmd e opts))).
        \<not> isNextPage ev \<and> \<not> isIdentityDelete ev \<and> \<not> isStorageDelete ev"
      and "snd (snd (deleteCmd e opts)) \<noteq> Panicked"
      by simp_all
  qed
  from events exit show ?thesis
    by (simp add: deleteCmd_client deletePaths_group [OF _ flag])
qed

theorem deleteCmd_group_path_exclusive_witness:
  "DeleteOIDCResourceGroup (exampleOpts\<lparr>DeleteOIDCResourceGroup := True\<rparr>)
   \<and> snd (deleteCmd (exampleEnv okClient) (exampleOpts\<lparr>DeleteOIDCResourceGroup := True\<rparr>)) =
       ([NewDefaultAzureCredential None,
         NewAzureClientWrapper ''sub-1'' None,
         Log ''No --oidc-resource-group-name provided, defaulting OIDC resource group name to cluster1-oidc'',
         Log ''No --storage-account-name provided, defaulting storage account name to cluster1'',
         BeginDelete Background ''cluster1-oidc'' None,
         PollUntilDone Background ''cluster1-oidc'' 10000000000 None,
         Log ''Deleted resource group cluster1-oidc''],
        Completed)"
  using deleteCmd_group_path_exclusive
    [of "exampleOpts\<lparr>DeleteOIDCResourceGroup := True\<rparr>" "exampleEnv okClient" okClient]
  by (simp add: example_defs defaulted_def preamble_def model_defs)

text \<open>
  C2, fine-grained ordering. In a run of \<^verbatim>\<open>deleteCmd\<close>, nothing but log lines follows a
  storage-account \<^verbatim>\<open>Delete\<close> call, and no such call precedes it: every managed-identity
  deletion comes before it. A managed-identity \<^verbatim>\<open>Delete\<close> call that fails is the last
  event of the run, which ends fatally with that error; the run has no storage-account
  \<^verbatim>\<open>Delete\<close> call. When the run does reach the storage-account call, the identities
  deleted before it are all the selected identities of the listing, in order. (With
  \<^verbatim>\<open>DeleteOIDCResourceGroup\<close> set a run has none of these calls.)
\<close>

theorem identities_before_storage_account:
  "(\<forall>xs ev ys. fst (snd (deleteCmd e opts)) = xs @ ev # ys \<and> isStorageDelete ev
       \<longrightarrow> (\<forall>ev' \<in> set xs. \<not> isStorageDelete ev') \<and> list_all isLog ys)
   \<and> (\<forall>ctx rg n err.
         IdentityDelete ctx rg n (Some err) \<in> set (fst (snd (deleteCmd e opts)))
       \<longrightarrow> snd (snd (deleteCmd e opts)) = Fatal err
           \<and> last (fst (snd (deleteCmd e opts))) = IdentityDelete ctx rg n (Some err)
           \<and> (\<forall>ev \<in> set (fst (snd (deleteCmd e opts))). \<not> isStorageDelete ev))
   \<and> (newAzureClientWrapper e (SubscriptionID opts) = Inr c
        \<and> (\<exists>ev \<in> set (fst (snd (deleteCmd e opts))). isStorageDelete ev)
       \<longrightarrow> deleted (fst (snd (deleteCmd e opts))) =
             map (\<lambda>i. (OIDCResourceGroupName (defaulted opts), the (idName i)))
               (filter (selected (ownedAzureResourceTagKeyPrefix @ ''_'' @ Name opts))
                  (entries (fetched (listPages c (preamble opts)
                                       (OIDCResourceGroupName (defaulted opts)))))))"
  using deleteCmd_after_storage [of e opts] deleteCmd_failed_delete [of _ _ _ _ e opts]
    deleteCmd_deleted [of e opts c]
  by blast

theorem identities_before_storage_account_witness:
  "deleted (fst (snd (deleteCmd (exampleEnv okClient) exampleOpts))) =
     [(''cluster1-oidc'', ''a''), (''cluster1-oidc'', ''c'')]
   \<and> list_all isLog [Log ''Deleted storage account cluster1'']
   \<and> snd (snd (deleteCmd
        (exampleEnv (scripted examplePages
           (\<lambda>n. if n = ''c'' then Some (Error ''AuthorizationFailed'') else None) None None None))
        exampleOpts)) = Fatal (Error ''AuthorizationFailed'')
   \<and> last (fst (snd (deleteCmd
        (exampleEnv (scripted examplePages
           (\<lambda>n. if n = ''c'' then Some (Error ''AuthorizationFailed'') else None) None None None))
        exampleOpts))) =
       IdentityDelete Background ''cluster1-oidc'' ''c'' (Some (Error ''AuthorizationFailed''))
   \<and> filter isStorageDelete (fst (snd (deleteCmd
        (exampleEnv (scripted examplePages
           (\<lambda>n. if n = ''c'' then Some (Error ''AuthorizationFailed'') else None) None None None))
        exampleOpts))) = []"
proof -
  let ?f = "scripted examplePages
      (\<lambda>n. if n = ''c'' then Some (Error ''AuthorizationFailed'') else None) None None None"
  let ?sd = "StorageDelete Background ''cluster1-oidc'' ''cluster1'' None"
  have a: "fst (snd (deleteCmd (exampleEnv okClient) exampleOpts)) =
      [NewDefaultAzureCredential None,
       NewAzureClientWrapper ''sub-1'' None,
       Log ''No --oidc-resource-group-name provided, defaulting OIDC resource group name to cluster1-oidc'',
       Log ''No --storage-account-name provided, defaulting storage account name to cluster1'',
       NextPage ''cluster1-oidc'' (Inr [Some identityA, Some identityB]),
       NextPage ''cluster1-oidc'' (Inr [Some identityC]),
       IdentityDelete Background ''cluster1-oidc'' ''a'' None,
       Log ''Deleted uai /ids/a'',
       IdentityDelete Background ''cluster1-oidc'' ''c'' None,
       Log ''Deleted uai /ids/c'']
      @ ?sd # [Log ''Deleted storage account cluster1'']
    \<and> isStorageDelete ?sd"
    by (simp add: example_run)
  have "newAzureClientWrapper (exampleEnv okClient) (SubscriptionID exampleOpts) = Inr okClient"
    by (simp add: exampleEnv_def)
  moreover have "\<exists>ev \<in> set (fst (snd (deleteCmd (exampleEnv okClient) exampleOpts))).
      isStorageDelete ev"
    by (simp add: example_run)
  ultimately have c: "newAzureClientWrapper (exampleEnv okClient) (SubscriptionID exampleOpts)
      = Inr okClient
    \<and> (\<exists>ev \<in> set (fst (snd (deleteCmd (exampleEnv okClient) exampleOpts))). isStorageDelete ev)"
    by (rule conjI)
  have b: "IdentityDelete Background ''cluster1-oidc'' ''c'' (Some (Error ''AuthorizationFailed''))
      \<in> set (fst (snd (deleteCmd (exampleEnv ?f) exampleOpts)))"
    by (simp add: example_failed_run)
  note order = identities_before_storage_account
    [where e = "exampleEnv okClient" and opts = exampleOpts,
     THEN conjunct1, THEN spec, THEN spec, THEN spec, THEN mp, OF a]
  note all = identities_before_storage_account
    [where e = "exampleEnv okClient" and opts = exampleOpts and c = okClient,
     THEN conjunct2, THEN conjunct2, THEN mp, OF c]
  note stop = identities_before_storage_account
    [where e = "exampleEnv ?f" and opts = exampleOpts,
     THEN conjunct2, THEN conjunct1, THEN spec, THEN spec, THEN spec, THEN spec, THEN mp, OF b]
  have k: "ownedAzureResourceTagKeyPrefix @ ''_'' @ Name exampleOpts = exampleKey"
    by (simp add: exampleKey_def exampleOpts_def ownedAzureResourceTagKeyPrefix_def)
  have l: "map (\<lambda>i. (OIDCResourceGroupName (defaulted exampleOpts), the (idName i)))
      (filter (selected exampleKey)
         (entries (fetched (listPages okClient (preamble exampleOpts)
                              (OIDCResourceGroupName (defaulted exampleOpts)))))) =
      [(''cluster1-oidc'', ''a''), (''cluster1-oidc'', ''c'')]"
    by (simp add: example_defs selected_def defaulted_def model_defs)
  from order all stop show ?thesis
    unfolding k l by (simp add: filter_empty_conv)
qed

text \<open>
  C3, ownership filter. For every identity and every name, the test of line 46 selects the
  identity exactly when its tag map sends the key
  \<^verbatim>\<open>openshift.io_cloud-credential-operator_<name>\<close> to the string \<^verbatim>\<open>owned\<close>. When the
  key is absent, or mapped to any other string, the identity is not selected and the test
  does not fail. The identities the listing hands to the delete loop are exactly the
  selected ones among the entries fetched, in the order of the listing. Of
  \<^verbatim>\<open>deleteManagedIdentities\<close> itself, called with the name: every \<^verbatim>\<open>Delete\<close> call it
  makes is for a selected identity of the listing, in the order of the listing and with none
  left out in between; and when it returns without an error, the identities it deleted are
  all the selected ones, so that a name was deleted exactly if a listed identity of that
  name carries the tag.
\<close>

theorem ownership_filter:
  "(hasOwnedTag (ownedAzureResourceTagKeyPrefix @ ''_'' @ name) identity = Return True
      \<longleftrightarrow> idTags identity (''openshift.io_cloud-credential-operator_'' @ name)
            = Some (Some ''owned''))
   \<and> (idTags identity (''openshift.io_cloud-credential-operator_'' @ name) = None
        \<longrightarrow> hasOwnedTag (ownedAzureResourceTagKeyPrefix @ ''_'' @ name) identity = Return False)
   \<and> (\<forall>v. idTags identity (''openshift.io_cloud-credential-operator_'' @ name) = Some (Some v)
            \<and> v \<noteq> ''owned''
        \<longrightarrow> hasOwnedTag (ownedAzureResourceTagKeyPrefix @ ''_'' @ name) identity = Return False)
   \<and> (\<forall>ids. snd (listLoop (ownedAzureResourceTagKeyPrefix @ ''_'' @ name) rg pages [])
              = Return (Inr ids)
        \<longrightarrow> ids = filter (\<lambda>i. idTags i (''openshift.io_cloud-credential-operator_'' @ name)
                                = Some (Some ''owned''))
                     (entries (fetched pages)))
   \<and> take (length (attempted (fst (deleteManagedIdentities c name rg s r h))))
        (map (\<lambda>i. (rg, the (idName i)))
           (filter (\<lambda>i. idTags i (''openshift.io_cloud-credential-operator_'' @ name)
                           = Some (Some ''owned''))
              (entries (fetched (listPages c h rg)))))
       = attempted (fst (deleteManagedIdentities c name rg s r h))
   \<and> (snd (deleteManagedIdentities c name rg s r h) = Return None
        \<longrightarrow> deleted (fst (deleteManagedIdentities c name rg s r h)) =
              map (\<lambda>i. (rg, the (idName i)))
                (filter (\<lambda>i. idTags i (''openshift.io_cloud-credential-operator_'' @ name)
                                = Some (Some ''owned''))
                   (entries (fetched (listPages c h rg)))))
   \<and> (snd (deleteManagedIdentities c name rg s r h) = Return None
        \<longrightarrow> (\<forall>rg' n. (rg', n) \<in> set (deleted (fst (deleteManagedIdentities c name rg s r h)))
              \<longleftrightarrow> rg' = rg
                  \<and> (\<exists>i \<in> set (entries (fetched (listPages c h rg))).
                        idTags i (''openshift.io_cloud-credential-operator_'' @ name)
                          = Some (Some ''owned'')
                        \<and> idName i = Some n)))"
proof -
  define k where "k = ownedAzureResourceTagKeyPrefix @ ''_'' @ name"
  have key: "''openshift.io_cloud-credential-operator_'' @ name = k"
    by (simp add: k_def ownedAzureResourceTagKeyPrefix_def)
  have val: "''owned'' = ownedAzureResourceTagValue"
    by (simp add: ownedAzureResourceTagValue_def)
  have 1: "hasOwnedTag k identity = Return True
      \<longleftrightarrow> idTags identity k = Some (Some ownedAzureResourceTagValue)"
    by (rule hasOwnedTag_True)
  have 2: "idTags identity k = None \<longrightarrow> hasOwnedTag k identity = Return False"
    by (simp add: hasOwnedTag_False)
  have 3: "\<forall>v. idTags identity k = Some (Some v) \<and> v \<noteq> ownedAzureResourceTagValue
      \<longrightarrow> hasOwnedTag k identity = Return False"
    by (simp add: hasOwnedTag_False)
  have 4: "\<forall>ids. snd (listLoop k rg pages []) = Return (Inr ids)
      \<longrightarrow> ids = filter (\<lambda>i. idTags i k = Some (Some ownedAzureResourceTagValue))
                   (entries (fetched pages))"
    using listLoop_selected [of k rg pages] by (simp add: selected_def [abs_def])
  have 5: "take (length (attempted (fst (deleteManagedIdentities c name rg s r h))))
        (map (\<lambda>i. (rg, the (idName i)))
           (filter (\<lambda>i. idTags i k = Some (Some ownedAzureResourceTagValue))
              (entries (fetched (listPages c h rg)))))
       = attempted (fst (deleteManagedIdentities c name rg s r h))"
    using deleteManagedIdentities_attempted [of c name rg s r h]
    by (simp add: selected_def [abs_def] k_def)
  have 6: "snd (deleteManagedIdentities c name rg s r h) = Return None
        \<longrightarrow> deleted (fst (deleteManagedIdentities c name rg s r h)) =
              map (\<lambda>i. (rg, the (idName i)))
                (filter (\<lambda>i. idTags i k = Some (Some ownedAzureResourceTagValue))
                   (entries (fetched (listPages c h rg))))"
    using deleteManagedIdentities_deleted [of c name rg s r h]
    by (simp add: selected_def [abs_def] k_def)
  have 7: "snd (deleteManagedIdentities c name rg s r h) = Return None
        \<longrightarrow> (\<forall>rg' n. (rg', n) \<in> set (deleted (fst (deleteManagedIdentities c name rg s r h)))
              \<longleftrightarrow> rg' = rg
                  \<and> (\<exists>i \<in> set (entries (fetched (listPages c h rg))).
                        idTags i k = Some (Some ownedAzureResourceTagValue)
                        \<and> idName i = Some n))"
    using deleteManagedIdentities_deleted_names [of c name rg s r h]
    by (simp add: selected_def k_def)
  from 1 2 3 4 5 6 7 show ?thesis
    unfolding key val k_def [symmetric] by (intro conjI)
qed

theorem ownership_filter_witness:
  "hasOwnedTag exampleKey identityA = Return True
   \<and> hasOwnedTag exampleKey identityB = Return False
   \<and> hasOwnedTag exampleKey (identityA\<lparr>idTags := [exampleKey \<mapsto> Some ''not-owned'']\<rparr>)
       = Return False
   \<and> snd (listLoop exampleKey ''cluster1-oidc'' examplePages [])
       = Return (Inr [identityA, identityC])
   \<and> deleted (fst (deleteManagedIdentities okClient ''cluster1'' ''cluster1-oidc''
                      ''sub-1'' ''eastus'' []))
       = [(''cluster1-oidc'', ''a''), (''cluster1-oidc'', ''c'')]"
proof -
  have k: "ownedAzureResourceTagKeyPrefix @ ''_'' @ ''cluster1'' = exampleKey"
    "''openshift.io_cloud-credential-operator_'' @ ''cluster1'' = exampleKey"
    by (simp_all add: exampleKey_def ownedAzureResourceTagKeyPrefix_def)
  have a: "idTags identityA exampleKey = Some (Some ''owned'')"
    by (simp add: identityA_def)
  have b: "idTags identityB exampleKey = None"
    by (simp add: identityB_def)
  have c: "idTags (identityA\<lparr>idTags := [exampleKey \<mapsto> Some ''not-owned'']\<rparr>) exampleKey
      = Some (Some ''not-owned'')"
    by simp
  have l: "snd (listLoop exampleKey ''cluster1-oidc'' examplePages [])
      = Return (Inr [identityA, identityC])"
    by (simp add: examplePages_def hasOwnedTag_def identityA_def identityB_def identityC_def
          ownedAzureResourceTagValue_def exampleKey_def)
  have d: "snd (deleteManagedIdentities okClient ''cluster1'' ''cluster1-oidc''
      ''sub-1'' ''eastus'' []) = Return None"
    by (simp add: example_identities)
  have sel: "map (\<lambda>i. (''cluster1-oidc'', the (idName i)))
      (filter (\<lambda>i. idTags i exampleKey = Some (Some ''owned''))
         (entries (fetched (listPages okClient [] ''cluster1-oidc''))))
      = [(''cluster1-oidc'', ''a''), (''cluster1-oidc'', ''c'')]"
    by (simp add: example_defs)
  note run = ownership_filter [where name = "''cluster1''" and c = okClient
      and rg = "''cluster1-oidc''" and s = "''sub-1''" and r = "''eastus''" and h = "[]",
      THEN conjunct2, THEN conjunct2, THEN conjunct2, THEN conjunct2, THEN conjunct2,
      THEN conjunct1, THEN mp, OF d, unfolded k sel]
  from ownership_filter [of "''cluster1''" identityA "''cluster1-oidc''" examplePages]
    ownership_filter [of "''cluster1''" identityB]
    ownership_filter [of "''cluster1''" "identityA\<lparr>idTags := [exampleKey \<mapsto> Some ''not-owned'']\<rparr>"]
    a b c l
  have "hasOwnedTag exampleKey identityA = Return True
   \<and> hasOwnedTag exampleKey identityB = Return False
   \<and> hasOwnedTag exampleKey (identityA\<lparr>idTags := [exampleKey \<mapsto> Some ''not-owned'']\<rparr>)
       = Return False
   \<and> snd (listLoop exampleKey ''cluster1-oidc'' examplePages [])
       = Return (Inr [identityA, identityC])"
    unfolding k by simp
  with run show ?thesis by simp
qed

text \<open>
  C4, discovery atomicity on failure. If a page fetch of the listing fails,
  \<^verbatim>\<open>deleteManagedIdentities\<close> returns the error of that fetch at once: the failed fetch is
  the last event of the call, and no identity is deleted. In particular, when the pages
  before the failing one were fetched and filtered, whatever identities they contributed,
  the call consists of the fetches up to the failing one and returns its error.
\<close>

theorem discovery_failure_discards_partial_list:
  "(NextPage rg' (Inl err) \<in> set (fst (deleteManagedIdentities c name rg s r h))
      \<longrightarrow> snd (deleteManagedIdentities c name rg s r h) = Return (Some err)
          \<and> last (fst (deleteManagedIdentities c name rg s r h)) = NextPage rg' (Inl err)
          \<and> (\<forall>ev \<in> set (fst (deleteManagedIdentities c name rg s r h)).
                \<not> isIdentityDelete ev))
   \<and> (listPages c h rg = ps @ Inl err # rest
        \<and> fetchError ps = None
        \<and> list_all (wellTagged (ownedAzureResourceTagKeyPrefix @ ''_'' @ name)) (fetched ps)
      \<longrightarrow> deleteManagedIdentities c name rg s r h =
            (map (NextPage rg) ps @ [NextPage rg (Inl err)], Return (Some err)))"
proof (intro conjI impI)
  assume "NextPage rg' (Inl err) \<in> set (fst (deleteManagedIdentities c name rg s r h))"
  from deleteManagedIdentities_failed_fetch [OF this]
  show "snd (deleteManagedIdentities c name rg s r h) = Return (Some err)"
    and "last (fst (deleteManagedIdentities c name rg s r h)) = NextPage rg' (Inl err)"
    and "\<forall>ev \<in> set (fst (deleteManagedIdentities c name rg s r h)). \<not> isIdentityDelete ev"
    by simp_all
next
  let ?k = "ownedAzureResourceTagKeyPrefix @ ''_'' @ name"
  assume a: "listPages c h rg = ps @ Inl err # rest \<and> fetchError ps = None
      \<and> list_all (wellTagged ?k) (fetched ps)"
  then have "listLoop ?k rg ps [] =
      (map (NextPage rg) ps, Return (Inr ([] @ filter (selected ?k) (entries (fetched ps)))))"
    by (intro listLoop_complete) simp_all
  from listLoop_append [OF this, of "Inl err # rest"] a
  have "listLoop ?k rg (listPages c h rg) []
      = (map (NextPage rg) ps @ [NextPage rg (Inl err)], Return (Inl err))"
    by simp
  then show "deleteManagedIdentities c name rg s r h =
      (map (NextPage rg) ps @ [NextPage rg (Inl err)], Return (Some err))"
    by (rule deleteManagedIdentities_fetch_failed)
qed

theorem discovery_failure_discards_partial_list_witness:
  "deleteManagedIdentities
     (scripted [Inr [Some identityA], Inl (Error ''TooManyRequests''), Inr [Some identityC]]
        (\<lambda>n. None) None None None)
     ''cluster1'' ''cluster1-oidc'' ''sub-1'' ''eastus'' [] =
     ([NextPage ''cluster1-oidc'' (Inr [Some identityA]),
       NextPage ''cluster1-oidc'' (Inl (Error ''TooManyRequests''))],
      Return (Some (Error ''TooManyRequests'')))
   \<and> last (fst (deleteManagedIdentities
        (scripted [Inr [Some identityA], Inl (Error ''TooManyRequests''), Inr [Some identityC]]
           (\<lambda>n. None) None None None)
        ''cluster1'' ''cluster1-oidc'' ''sub-1'' ''eastus'' []))
       = NextPage ''cluster1-oidc'' (Inl (Error ''TooManyRequests''))
   \<and> filter (selected exampleKey) (entries (fetched [Inr [Some identityA]])) = [identityA]"
proof -
  let ?c = "scripted [Inr [Some identityA], Inl (Error ''TooManyRequests''), Inr [Some identityC]]
        (\<lambda>n. None) None None None"
  have k: "ownedAzureResourceTagKeyPrefix @ ''_'' @ ''cluster1'' = exampleKey"
    by (simp add: exampleKey_def ownedAzureResourceTagKeyPrefix_def)
  have p: "listPages ?c [] ''cluster1-oidc''
      = [Inr [Some identityA]] @ Inl (Error ''TooManyRequests'') # [Inr [Some identityC]]
    \<and> fetchError [Inr [Some identityA]] = None
    \<and> list_all (wellTagged (ownedAzureResourceTagKeyPrefix @ ''_'' @ ''cluster1''))
         (fetched [Inr [Some identityA]])"
    unfolding k by (simp add: scripted_def identityA_def)
  have s: "filter (selected exampleKey) (entries (fetched [Inr [Some identityA]])) = [identityA]"
    by (simp add: selected_def identityA_def ownedAzureResourceTagValue_def)
  note run = discovery_failure_discards_partial_list
    [where c = ?c and h = "[]" and rg = "''cluster1-oidc''" and name = "''cluster1''"
       and ps = "[Inr [Some identityA]]" and err = "Error ''TooManyRequests''"
       and rest = "[Inr [Some identityC]]" and s = "''sub-1''" and r = "''eastus''",
     THEN conjunct2, THEN mp, OF p]
  then have m: "NextPage ''cluster1-oidc'' (Inl (Error ''TooManyRequests''))
      \<in> set (fst (deleteManagedIdentities ?c ''cluster1'' ''cluster1-oidc'' ''sub-1'' ''eastus'' []))"
    by simp
  note stop = discovery_failure_discards_partial_list
    [where c = ?c and h = "[]" and rg = "''cluster1-oidc''" and name = "''cluster1''"
       and rg' = "''cluster1-oidc''" and err = "Error ''TooManyRequests''"
       and s = "''sub-1''" and r = "''eastus''",
     THEN conjunct1, THEN mp, OF m]
  from run stop s show ?thesis by simp
qed

text \<open>
  C5, empty discovery is success. When every page of the listing is fetched and filtered
  and no identity carries the ownership tag, \<^verbatim>\<open>deleteManagedIdentities\<close> consists of the
  page fetches and one log line saying that nothing was found, and it returns no error;
  it deletes nothing. \<^verbatim>\<open>deleteCmd\<close>, on the fine-grained path with a valid storage-account
  name, then goes on with \<^verbatim>\<open>deleteStorageAccount\<close> and ends as that call decides.
\<close>

theorem empty_discovery_is_success:
  assumes "fetchError (listPages c h rg) = None"
    and "list_all (wellTagged (ownedAzureResourceTagKeyPrefix @ ''_'' @ name))
           (fetched (listPages c h rg))"
    and "filter (selected (ownedAzureResourceTagKeyPrefix @ ''_'' @ name))
           (entries (fetched (listPages c h rg))) = []"
  shows "deleteManagedIdentities c name rg s r h =
       (map (NextPage rg) (listPages c h rg)
          @ [Log (''Found no user-assigned managed identities with tag key=''
                  @ ownedAzureResourceTagKeyPrefix @ ''_'' @ name @ '', value=owned'')],
        Return None)
     \<and> (newDefaultAzureCredential e = None
          \<and> newAzureClientWrapper e (SubscriptionID opts) = Inr c
          \<and> validateStorageAccountName (StorageAccountName (defaulted opts)) = None
          \<and> \<not> DeleteOIDCResourceGroup opts
          \<and> name = Name opts \<and> rg = OIDCResourceGroupName (defaulted opts)
          \<and> h = preamble opts
        \<longrightarrow> snd (deleteCmd e opts) =
              (h @ fst (deleteManagedIdentities c name rg s r h)
                 @ fst (deleteStorageAccount c rg (StorageAccountName (defaulted opts))
                          (h @ fst (deleteManagedIdentities c name rg s r h))),
               case snd (deleteStorageAccount c rg (StorageAccountName (defaulted opts))
                          (h @ fst (deleteManagedIdentities c name rg s r h))) of
                 None \<Rightarrow> Completed | Some err \<Rightarrow> Fatal err))"
proof -
  let ?k = "ownedAzureResourceTagKeyPrefix @ ''_'' @ name"
  have "listLoop ?k rg (listPages c h rg) [] =
      (map (NextPage rg) (listPages c h rg), Return (Inr []))"
    using listLoop_complete [OF assms(1,2), of rg "[]"] assms(3) by simp
  from deleteManagedIdentities_none_owned [OF this]
  have found: "deleteManagedIdentities c name rg s' r' h =
       (map (NextPage rg) (listPages c h rg)
          @ [Log (''Found no user-assigned managed identities with tag key=''
                  @ ownedAzureResourceTagKeyPrefix @ ''_'' @ name @ '', value=owned'')],
        Return None)" for s' r'
    by (simp add: ownedAzureResourceTagValue_def)
  have "snd (deleteCmd e opts) =
      (h @ fst (deleteManagedIdentities c name rg s r h)
         @ fst (deleteStorageAccount c rg (StorageAccountName (defaulted opts))
                  (h @ fst (deleteManagedIdentities c name rg s r h))),
       case snd (deleteStorageAccount c rg (StorageAccountName (defaulted opts))
                  (h @ fst (deleteManagedIdentities c name rg s r h))) of
         None \<Rightarrow> Completed | Some err \<Rightarrow> Fatal err)"
    if "newDefaultAzureCredential e = None"
      and "newAzureClientWrapper e (SubscriptionID opts) = Inr c"
      and "validateStorageAccountName (StorageAccountName (defaulted opts)) = None"
      and "\<not> DeleteOIDCResourceGroup opts"
      and "name = Name opts" and "rg = OIDCResourceGroupName (defaulted opts)"
      and "h = preamble opts"
    using that found
    by (simp add: deleteCmd_client deletePaths_def defaulted_unchanged split_beta
          split: option.splits)
  with found show ?thesis by blast
qed

theorem empty_discovery_is_success_witness:
  "deleteManagedIdentities (scripted [Inr [Some identityB], Inr []] (\<lambda>n. None) None None None)
     ''cluster1'' ''cluster1-oidc'' ''sub-1'' ''eastus'' (preamble exampleOpts) =
     ([NextPage ''cluster1-oidc'' (Inr [Some identityB]),
       NextPage ''cluster1-oidc'' (Inr []),
       Log ''Found no user-assigned managed identities with tag key=openshift.io_cloud-credential-operator_cluster1, value=owned''],
      Return None)
   \<and> snd (deleteCmd
        (exampleEnv (scripted [Inr [Some identityB], Inr []] (\<lambda>n. None) None None None))
        exampleOpts) =
     ([NewDefaultAzureCredential None,
       NewAzureClientWrapper ''sub-1'' None,
       Log ''No --oidc-resource-group-name provided, defaulting OIDC resource group name to cluster1-oidc'',
       Log ''No --storage-account-name provided, defaulting storage account name to cluster1'',
       NextPage ''cluster1-oidc'' (Inr [Some identityB]),
       NextPage ''cluster1-oidc'' (Inr []),
       Log ''Found no user-assigned managed identities with tag key=openshift.io_cloud-credential-operator_cluster1, value=owned'',
       StorageDelete Background ''cluster1-oidc'' ''cluster1'' None,
       Log ''Deleted storage account cluster1''],
      Completed)"
proof -
  let ?c = "scripted [Inr [Some identityB], Inr []] (\<lambda>n. None) None None None"
  let ?h = "preamble exampleOpts"
  have pages: "listPages ?c ?h ''cluster1-oidc'' = [Inr [Some identityB], Inr []]"
    by (simp add: scripted_def)
  have 1: "fetchError (listPages ?c ?h ''cluster1-oidc'') = None"
    unfolding pages by simp
  have 2: "list_all (wellTagged (ownedAzureResourceTagKeyPrefix @ ''_'' @ ''cluster1''))
      (fetched (listPages ?c ?h ''cluster1-oidc''))"
    unfolding pages by (simp add: identityB_def)
  have 3: "filter (selected (ownedAzureResourceTagKeyPrefix @ ''_'' @ ''cluster1''))
      (entries (fetched (listPages ?c ?h ''cluster1-oidc''))) = []"
    unfolding pages by (simp add: identityB_def selected_def)
  have 4: "newDefaultAzureCredential (exampleEnv ?c) = None
      \<and> newAzureClientWrapper (exampleEnv ?c) (SubscriptionID exampleOpts) = Inr ?c
      \<and> validateStorageAccountName (StorageAccountName (defaulted exampleOpts)) = None
      \<and> \<not> DeleteOIDCResourceGroup exampleOpts
      \<and> ''cluster1'' = Name exampleOpts
      \<and> ''cluster1-oidc'' = OIDCResourceGroupName (defaulted exampleOpts)
      \<and> ?h = preamble exampleOpts"
    by (simp add: exampleEnv_def exampleOpts_def defaulted_def model_defs)
  note found = empty_discovery_is_success [OF 1 2 3, where s = "''sub-1''" and r = "''eastus''"
      and e = "exampleEnv ?c" and opts = exampleOpts, THEN conjunct1]
  note run = empty_discovery_is_success [OF 1 2 3, where s = "''sub-1''" and r = "''eastus''"
      and e = "exampleEnv ?c" and opts = exampleOpts, THEN conjunct2, THEN mp, OF 4]
  have sa: "StorageAccountName (defaulted exampleOpts) = ''cluster1''"
    by (simp add: exampleOpts_def defaulted_def model_defs)
  have h: "?h = [NewDefaultAzureCredential None,
       NewAzureClientWrapper ''sub-1'' None,
       Log ''No --oidc-resource-group-name provided, defaulting OIDC resource group name to cluster1-oidc'',
       Log ''No --storage-account-name provided, defaulting storage account name to cluster1'']"
    by (simp add: exampleOpts_def preamble_def model_defs)
  have f: "deleteManagedIdentities ?c ''cluster1'' ''cluster1-oidc'' ''sub-1'' ''eastus'' ?h =
     ([NextPage ''cluster1-oidc'' (Inr [Some identityB]),
       NextPage ''cluster1-oidc'' (Inr []),
       Log ''Found no user-assigned managed identities with tag key=openshift.io_cloud-credential-operator_cluster1, value=owned''],
      Return None)"
    using found unfolding pages by (simp add: ownedAzureResourceTagKeyPrefix_def)
  have d: "deleteStorageAccount ?c ''cluster1-oidc'' ''cluster1'' hh =
      ([StorageDelete Background ''cluster1-oidc'' ''cluster1'' None,
        Log ''Deleted storage account cluster1''], None)" for hh
    by (simp add: deleteStorageAccount_def scripted_def)
  from run show ?thesis
    unfolding f sa d unfolding h by (simp add: f)
qed

text \<open>
  C6, name-derivation defaulting. For every name, lines 111 to 119 replace an empty OIDC
  resource-group name by the name followed by the suffix and an empty storage-account
  name by the name; a name that was given is kept as it is, and no other option changes.
  A run of \<^verbatim>\<open>deleteCmd\<close> that obtains the credential and the client leaves exactly
  these options in \<^verbatim>\<open>DeleteOpts\<close>.
\<close>

theorem deleteCmd_name_defaulting:
  "fst (defaultOIDCResourceGroupName opts) =
     opts\<lparr>OIDCResourceGroupName :=
              (if OIDCResourceGroupName opts = [] then Name opts @ oidcResourceGroupSuffix
               else OIDCResourceGroupName opts)\<rparr>
   \<and> fst (defaultStorageAccountName opts) =
     opts\<lparr>StorageAccountName :=
              (if StorageAccountName opts = [] then Name opts else StorageAccountName opts)\<rparr>
   \<and> (newDefaultAzureCredential e = None
        \<and> newAzureClientWrapper e (SubscriptionID opts) = Inr c
      \<longrightarrow> fst (deleteCmd e opts) =
            opts\<lparr>OIDCResourceGroupName :=
                     (if OIDCResourceGroupName opts = [] then Name opts @ oidcResourceGroupSuffix
                      else OIDCResourceGroupName opts),
                  StorageAccountName :=
                     (if StorageAccountName opts = [] then Name opts
                      else StorageAccountName opts)\<rparr>)"
  by (simp add: deleteCmd_client defaulted_def defaultOIDCResourceGroupName_def
        defaultStorageAccountName_def Let_def)

theorem deleteCmd_name_defaulting_witness:
  "fst (deleteCmd (exampleEnv okClient) exampleOpts) =
     exampleOpts\<lparr>OIDCResourceGroupName := ''cluster1-oidc'', StorageAccountName := ''cluster1''\<rparr>
   \<and> fst (deleteCmd (exampleEnv okClient)
            (exampleOpts\<lparr>OIDCResourceGroupName := ''my-group'', StorageAccountName := ''mystore''\<rparr>)) =
     exampleOpts\<lparr>OIDCResourceGroupName := ''my-group'', StorageAccountName := ''mystore''\<rparr>"
proof -
  let ?given = "exampleOpts\<lparr>OIDCResourceGroupName := ''my-group'', StorageAccountName := ''mystore''\<rparr>"
  have 1: "newDefaultAzureCredential (exampleEnv okClient) = None
      \<and> newAzureClientWrapper (exampleEnv okClient) (SubscriptionID exampleOpts) = Inr okClient"
    by (simp add: exampleEnv_def)
  have 2: "newDefaultAzureCredential (exampleEnv okClient) = None
      \<and> newAzureClientWrapper (exampleEnv okClient) (SubscriptionID ?given) = Inr okClient"
    by (simp add: exampleEnv_def)
  from deleteCmd_name_defaulting [where e = "exampleEnv okClient" and opts = exampleOpts
        and c = okClient, THEN conjunct2, THEN conjunct2, THEN mp, OF 1]
    deleteCmd_name_defaulting [where e = "exampleEnv okClient" and opts = ?given
        and c = okClient, THEN conjunct2, THEN conjunct2, THEN mp, OF 2]
  show ?thesis
    by (simp add: exampleOpts_def oidcResourceGroupSuffix_def)
qed

text \<open>
  C7, poll-error wrapping, as the claim states it: a failed poll would be returned wrapped,
  with a context naming the resource group. It is not: with a provider whose
  \<^verbatim>\<open>PollUntilDone\<close> fails with \<^verbatim>\<open>DeploymentFailed\<close>, \<^verbatim>\<open>deleteResourceGroup\<close> returns
  that very error, which is no wrapped error.
\<close>

theorem deleteResourceGroup_poll_error_counterexample:
  "deleteResourceGroup
     (scripted [] (\<lambda>n. None) None (Some (Error ''DeploymentFailed'')) None)
     ''cluster1-oidc'' [] =
     ([BeginDelete Background ''cluster1-oidc'' None,
       PollUntilDone Background ''cluster1-oidc'' 10000000000 (Some (Error ''DeploymentFailed''))],
      Some (Error ''DeploymentFailed''))
   \<and> \<not> wrapped (Error ''DeploymentFailed'')"
  by (simp add: deleteResourceGroup_def scripted_def Second_def Let_def)

text \<open>
  C7 as amended. When \<^verbatim>\<open>PollUntilDone\<close> fails, \<^verbatim>\<open>deleteResourceGroup\<close> returns the
  provider's error unchanged. Only a failure of \<^verbatim>\<open>BeginDelete\<close> is wrapped, and its
  context is the fixed text \<^verbatim>\<open>failed to delete resource group\<close>, the same for every
  group. Every \<^verbatim>\<open>PollUntilDone\<close> call is for the group being deleted, with a frequency of
  ten seconds and the background context, which has no deadline.
\<close>

theorem deleteResourceGroup_errors:
  "(beginDelete c h rg = None
      \<and> pollUntilDone c (h @ [BeginDelete Background rg None]) rg = Some err
    \<longrightarrow> deleteResourceGroup c rg h =
          ([BeginDelete Background rg None, PollUntilDone Background rg (10 * Second) (Some err)],
           Some err))
   \<and> (beginDelete c h rg = Some err
    \<longrightarrow> deleteResourceGroup c rg h =
          ([BeginDelete Background rg (Some err)],
           Some (Wrap err ''failed to delete resource group'')))
   \<and> (\<forall>ctx rg' f r. PollUntilDone ctx rg' f r \<in> set (fst (deleteResourceGroup c rg h))
        \<longrightarrow> deadline ctx = None \<and> f = 10 * Second \<and> rg' = rg)"
  by (auto simp: deleteResourceGroup_def Let_def split: option.splits)

theorem deleteResourceGroup_errors_witness:
  "deleteResourceGroup
     (scripted [] (\<lambda>n. None) None (Some (Error ''DeploymentFailed'')) None)
     ''cluster1-oidc'' [] =
     ([BeginDelete Background ''cluster1-oidc'' None,
       PollUntilDone Background ''cluster1-oidc'' (10 * Second) (Some (Error ''DeploymentFailed''))],
      Some (Error ''DeploymentFailed''))
   \<and> deleteResourceGroup
     (scripted [] (\<lambda>n. None) (Some (Error ''AuthorizationFailed'')) None None)
     ''cluster1-oidc'' [] =
     ([BeginDelete Background ''cluster1-oidc'' (Some (Error ''AuthorizationFailed''))],
      Some (Wrap (Error ''AuthorizationFailed'') ''failed to delete resource group''))
   \<and> deadline Background = None \<and> 10 * Second = 10000000000"
proof -
  let ?p = "scripted [] (\<lambda>n. None) None (Some (Error ''DeploymentFailed'')) None"
  let ?b = "scripted [] (\<lambda>n. None) (Some (Error ''AuthorizationFailed'')) None None"
  have p: "beginDelete ?p [] ''cluster1-oidc'' = None
      \<and> pollUntilDone ?p ([] @ [BeginDelete Background ''cluster1-oidc'' None]) ''cluster1-oidc''
          = Some (Error ''DeploymentFailed'')"
    by (simp add: scripted_def)
  have b: "beginDelete ?b [] ''cluster1-oidc'' = Some (Error ''AuthorizationFailed'')"
    by (simp add: scripted_def)
  note polled = deleteResourceGroup_errors [of ?p "[]" "''cluster1-oidc''"
      "Error ''DeploymentFailed''", THEN conjunct1, THEN mp, OF p]
  note begun = deleteResourceGroup_errors [of ?b "[]" "''cluster1-oidc''"
      "Error ''AuthorizationFailed''", THEN conjunct2, THEN conjunct1, THEN mp, OF b]
  have s: "10 * Second = 10000000000"
    by (simp add: Second_def)
  from polled begun s show ?thesis
    by (intro conjI) simp_all
qed

text \<open>
  C8, dry-run noninterference. Two runs of \<^verbatim>\<open>deleteCmd\<close> whose options differ only in
  \<^verbatim>\<open>DryRun\<close> have the same events and end the same way; the options left behind differ
  only in \<^verbatim>\<open>DryRun\<close>. The flag is never read, so the deletions of a run are made with
  \<^verbatim>\<open>DryRun\<close> set as well.
\<close>

theorem deleteCmd_DryRun_ignored:
  "deleteCmd e (opts\<lparr>DryRun := b\<rparr>) =
     (case deleteCmd e opts of (opts', tr, x) \<Rightarrow> (opts'\<lparr>DryRun := b\<rparr>, tr, x))"
proof (cases rule: deleteCmd_cases [where e = e and opts = opts])
  case credential
  then show ?thesis by (simp add: deleteCmd_no_credential)
next
  case client
  then show ?thesis by (simp add: deleteCmd_no_client)
next
  case (run c)
  then have "newAzureClientWrapper e (SubscriptionID (opts\<lparr>DryRun := b\<rparr>)) = Inr c"
    by simp
  with run show ?thesis
    by (simp add: deleteCmd_client defaulted_DryRun preamble_DryRun deletePaths_DryRun)
qed

theorem deleteCmd_DryRun_ignored_witness:
  "snd (deleteCmd (exampleEnv okClient) (exampleOpts\<lparr>DryRun := True\<rparr>)) =
     ([NewDefaultAzureCredential None,
       NewAzureClientWrapper ''sub-1'' None,
       Log ''No --oidc-resource-group-name provided, defaulting OIDC resource group name to cluster1-oidc'',
       Log ''No --storage-account-name provided, defaulting storage account name to cluster1'',
       NextPage ''cluster1-oidc'' (Inr [Some identityA, Some identityB]),
       NextPage ''cluster1-oidc'' (Inr [Some identityC]),
       IdentityDelete Background ''cluster1-oidc'' ''a'' None,
       Log ''Deleted uai /ids/a'',
       IdentityDelete Background ''cluster1-oidc'' ''c'' None,
       Log ''Deleted uai /ids/c'',
       StorageDelete Background ''cluster1-oidc'' ''cluster1'' None,
       Log ''Deleted storage account cluster1''],
      Completed)"
  using deleteCmd_DryRun_ignored [where e = "exampleEnv okClient" and opts = exampleOpts and b = True]
    example_run
  by (simp add: split_beta)

text \<open>
  C9, the implicit nil-pointer precondition, as the claim states it: an identity that
  violates the precondition would make the operation panic rather than return an error.
  It need not: the identity below is selected and its \<^verbatim>\<open>Type\<close> pointer is nil, but the
  provider refuses to delete it, and \<^verbatim>\<open>deleteManagedIdentities\<close> returns that error
  before it reaches \<^verbatim>\<open>*identity.Type\<close>.
\<close>

theorem nil_pointer_precondition_counterexample:
  "selected exampleKey identityNoType
   \<and> \<not> pointersPresent identityNoType
   \<and> deleteManagedIdentities
        (scripted [Inr [Some identityNoType]] (\<lambda>n. Some (Error ''AuthorizationFailed''))
           None None None)
        ''cluster1'' ''cluster1-oidc'' ''sub-1'' ''eastus'' [] =
       ([NextPage ''cluster1-oidc'' (Inr [Some identityNoType]),
         IdentityDelete Background ''cluster1-oidc'' ''a'' (Some (Error ''AuthorizationFailed''))],
        Return (Some (Error ''AuthorizationFailed'')))"
  by (simp add: selected_def pointersPresent_def example_defs model_defs)

text \<open>
  C9 as amended. \<^verbatim>\<open>deleteManagedIdentities\<close> does not panic when every entry of the
  pages fetched is an identity (not nil) whose tag map does not hold the owned key with a
  nil value, and every selected identity has \<^verbatim>\<open>Name\<close>, \<^verbatim>\<open>Type\<close> and \<^verbatim>\<open>ID\<close> pointers
  that are not nil. It panics exactly in two cases: a fetched entry is nil or holds the
  owned key with a nil value; or every page fetch succeeds, some selected identity has a
  nil \<^verbatim>\<open>Name\<close>, \<^verbatim>\<open>Type\<close> or \<^verbatim>\<open>ID\<close>, and no \<^verbatim>\<open>Delete\<close> call of the run is answered
  with an error (so it does when the provider answers every such call without an error).
  A nil \<^verbatim>\<open>Name\<close> is dereferenced before the call: when the first selected identity has
  one, the run is the page fetches and a panic, whatever the provider would answer.
  Otherwise the error comes first: a failed page fetch after entries the filter can read
  is returned as the result, and so is the error of a failed \<^verbatim>\<open>Delete\<close> call.
\<close>

theorem nil_pointer_precondition:
  "(list_all (wellTagged (ownedAzureResourceTagKeyPrefix @ ''_'' @ name))
        (fetched (listPages c h rg))
      \<and> list_all pointersPresent
           (filter (selected (ownedAzureResourceTagKeyPrefix @ ''_'' @ name))
              (entries (fetched (listPages c h rg))))
    \<longrightarrow> snd (deleteManagedIdentities c name rg s r h) \<noteq> Panic)
   \<and> (\<not> list_all (wellTagged (ownedAzureResourceTagKeyPrefix @ ''_'' @ name))
            (fetched (listPages c h rg))
    \<longrightarrow> snd (deleteManagedIdentities c name rg s r h) = Panic)
   \<and> (fetchError (listPages c h rg) = None
      \<and> (\<forall>h' n. identityDelete c h' rg n = None)
      \<and> \<not> list_all pointersPresent
             (filter (selected (ownedAzureResourceTagKeyPrefix @ ''_'' @ name))
                (entries (fetched (listPages c h rg))))
    \<longrightarrow> snd (deleteManagedIdentities c name rg s r h) = Panic)
   \<and> (snd (deleteManagedIdentities c name rg s r h) = Panic \<longleftrightarrow>
        \<not> list_all (wellTagged (ownedAzureResourceTagKeyPrefix @ ''_'' @ name))
             (fetched (listPages c h rg))
        \<or> (fetchError (listPages c h rg) = None
           \<and> \<not> list_all pointersPresent
                  (filter (selected (ownedAzureResourceTagKeyPrefix @ ''_'' @ name))
                     (entries (fetched (listPages c h rg))))
           \<and> \<not> list_ex failedDelete (fst (deleteManagedIdentities c name rg s r h))))
   \<and> (fetchError (listPages c h rg) = None
      \<and> list_all (wellTagged (ownedAzureResourceTagKeyPrefix @ ''_'' @ name))
           (fetched (listPages c h rg))
      \<and> filter (selected (ownedAzureResourceTagKeyPrefix @ ''_'' @ name))
           (entries (fetched (listPages c h rg))) = i # rest
      \<and> idName i = None
    \<longrightarrow> deleteManagedIdentities c name rg s r h =
          (map (NextPage rg) (listPages c h rg), Panic))
   \<and> (fetchError (listPages c h rg) = Some err
      \<and> list_all (wellTagged (ownedAzureResourceTagKeyPrefix @ ''_'' @ name))
           (fetched (listPages c h rg))
    \<longrightarrow> snd (deleteManagedIdentities c name rg s r h) = Return (Some err))
   \<and> (IdentityDelete ctx rg' n (Some err) \<in> set (fst (deleteManagedIdentities c name rg s r h))
    \<longrightarrow> snd (deleteManagedIdentities c name rg s r h) = Return (Some err))"
  using deleteManagedIdentities_no_Panic [of name c h rg s r]
    deleteManagedIdentities_Panic_tags [of name c h rg s r]
    deleteManagedIdentities_Panic_pointers [of c h rg name s r]
    deleteManagedIdentities_Panic_iff [of c name rg s r h]
    deleteManagedIdentities_nil_Name_first [of c h rg name i rest s r]
    deleteManagedIdentities_fetch_error [of c h rg err name s r]
    deleteManagedIdentities_failed_delete [of ctx rg' n err c name rg s r h]
  by blast

theorem nil_pointer_precondition_witness:
  "snd (deleteManagedIdentities okClient ''cluster1'' ''cluster1-oidc'' ''sub-1'' ''eastus'' [])
     \<noteq> Panic
   \<and> snd (deleteManagedIdentities
        (scripted [Inr [Some identityB, Some identityNilTag]] (\<lambda>n. None) None None None)
        ''cluster1'' ''cluster1-oidc'' ''sub-1'' ''eastus'' []) = Panic
   \<and> snd (deleteManagedIdentities
        (scripted [Inr [Some identityNoType]] (\<lambda>n. None) None None None)
        ''cluster1'' ''cluster1-oidc'' ''sub-1'' ''eastus'' []) = Panic
   \<and> deleteManagedIdentities
        (scripted [Inr [Some identityNoName]] (\<lambda>n. Some (Error ''AuthorizationFailed''))
           None None None)
        ''cluster1'' ''cluster1-oidc'' ''sub-1'' ''eastus'' [] =
       ([NextPage ''cluster1-oidc'' (Inr [Some identityNoName])], Panic)
   \<and> snd (deleteManagedIdentities
        (scripted [Inr [Some identityNoName]] (\<lambda>n. Some (Error ''AuthorizationFailed''))
           None None None)
        ''cluster1'' ''cluster1-oidc'' ''sub-1'' ''eastus'' []) = Panic
   \<and> snd (deleteManagedIdentities
        (scripted [Inr [Some identityNoType], Inl (Error ''TooManyRequests'')] (\<lambda>n. None)
           None None None)
        ''cluster1'' ''cluster1-oidc'' ''sub-1'' ''eastus'' [])
       = Return (Some (Error ''TooManyRequests''))
   \<and> snd (deleteManagedIdentities
        (scripted [Inr [Some identityNoType]] (\<lambda>n. Some (Error ''AuthorizationFailed''))
           None None None)
        ''cluster1'' ''cluster1-oidc'' ''sub-1'' ''eastus'' [])
       = Return (Some (Error ''AuthorizationFailed''))"
proof -
  let ?t = "scripted [Inr [Some identityB, Some identityNilTag]] (\<lambda>n. None) None None None"
  let ?p = "scripted [Inr [Some identityNoType]] (\<lambda>n. None) None None None"
  let ?n = "scripted [Inr [Some identityNoName]] (\<lambda>n. Some (Error ''AuthorizationFailed''))
      None None None"
  let ?f = "scripted [Inr [Some identityNoType], Inl (Error ''TooManyRequests'')] (\<lambda>n. None)
      None None None"
  let ?r = "scripted [Inr [Some identityNoType]] (\<lambda>n. Some (Error ''AuthorizationFailed''))
      None None None"
  let ?K = "ownedAzureResourceTagKeyPrefix @ ''_'' @ ''cluster1''"
  have k: "?K = exampleKey"
    by (simp add: exampleKey_def ownedAzureResourceTagKeyPrefix_def)
  have 1: "list_all (wellTagged ?K) (fetched (listPages okClient [] ''cluster1-oidc''))
      \<and> list_all pointersPresent
           (filter (selected ?K) (entries (fetched (listPages okClient [] ''cluster1-oidc''))))"
    unfolding k by (simp add: example_defs selected_def pointersPresent_def)
  have 2: "\<not> list_all (wellTagged ?K) (fetched (listPages ?t [] ''cluster1-oidc''))"
    unfolding k by (simp add: scripted_def identityB_def identityNilTag_def)
  have 3: "fetchError (listPages ?p [] ''cluster1-oidc'') = None
      \<and> (\<forall>h' n. identityDelete ?p h' ''cluster1-oidc'' n = None)
      \<and> \<not> list_all pointersPresent
             (filter (selected ?K) (entries (fetched (listPages ?p [] ''cluster1-oidc''))))"
    unfolding k
    by (simp add: scripted_def identityNoType_def selected_def pointersPresent_def
          ownedAzureResourceTagValue_def)
  have 5: "fetchError (listPages ?n [] ''cluster1-oidc'') = None
      \<and> list_all (wellTagged ?K) (fetched (listPages ?n [] ''cluster1-oidc''))
      \<and> filter (selected ?K) (entries (fetched (listPages ?n [] ''cluster1-oidc'')))
          = identityNoName # []
      \<and> idName identityNoName = None"
    unfolding k
    by (simp add: scripted_def identityNoName_def selected_def ownedAzureResourceTagValue_def)
  have 6: "fetchError (listPages ?f [] ''cluster1-oidc'') = Some (Error ''TooManyRequests'')
      \<and> list_all (wellTagged ?K) (fetched (listPages ?f [] ''cluster1-oidc''))"
    unfolding k by (simp add: scripted_def identityNoType_def)
  have 7: "IdentityDelete Background ''cluster1-oidc'' ''a'' (Some (Error ''AuthorizationFailed''))
      \<in> set (fst (deleteManagedIdentities ?r ''cluster1'' ''cluster1-oidc'' ''sub-1'' ''eastus'' []))"
    by (simp add: example_refused_run)
  note safe = nil_pointer_precondition [where c = okClient and h = "[]"
      and rg = "''cluster1-oidc''" and name = "''cluster1''" and s = "''sub-1''"
      and r = "''eastus''", THEN conjunct1, THEN mp, OF 1]
  note tags = nil_pointer_precondition [where c = ?t and h = "[]"
      and rg = "''cluster1-oidc''" and name = "''cluster1''" and s = "''sub-1''"
      and r = "''eastus''", THEN conjunct2, THEN conjunct1, THEN mp, OF 2]
  note pointers = nil_pointer_precondition [where c = ?p and h = "[]"
      and rg = "''cluster1-oidc''" and name = "''cluster1''" and s = "''sub-1''"
      and r = "''eastus''", THEN conjunct2, THEN conjunct2, THEN conjunct1, THEN mp, OF 3]
  note noname = nil_pointer_precondition [where c = ?n and h = "[]"
      and rg = "''cluster1-oidc''" and name = "''cluster1''" and s = "''sub-1''"
      and r = "''eastus''" and i = identityNoName and rest = "[]",
      THEN conjunct2, THEN conjunct2, THEN conjunct2, THEN conjunct2, THEN conjunct1,
      THEN mp, OF 5]
  have 4: "fetchError (listPages ?n [] ''cluster1-oidc'') = None
      \<and> \<not> list_all pointersPresent
             (filter (selected ?K) (entries (fetched (listPages ?n [] ''cluster1-oidc''))))
      \<and> \<not> list_ex failedDelete
             (fst (deleteManagedIdentities ?n ''cluster1'' ''cluster1-oidc'' ''sub-1'' ''eastus'' []))"
    unfolding noname k
    by (simp add: scripted_def identityNoName_def selected_def pointersPresent_def
          ownedAzureResourceTagValue_def)
  note exact = nil_pointer_precondition [where c = ?n and h = "[]"
      and rg = "''cluster1-oidc''" and name = "''cluster1''" and s = "''sub-1''"
      and r = "''eastus''", THEN conjunct2, THEN conjunct2, THEN conjunct2, THEN conjunct1,
      THEN iffD2, OF disjI2, OF 4]
  note fetch = nil_pointer_precondition [where c = ?f and h = "[]"
      and rg = "''cluster1-oidc''" and name = "''cluster1''" and s = "''sub-1''"
      and r = "''eastus''" and err = "Error ''TooManyRequests''",
      THEN conjunct2, THEN conjunct2, THEN conjunct2, THEN conjunct2, THEN conjunct2,
      THEN conjunct1, THEN mp, OF 6]
  note refused = nil_pointer_precondition [where c = ?r and h = "[]"
      and rg = "''cluster1-oidc''" and name = "''cluster1''" and s = "''sub-1''"
      and r = "''eastus''" and err = "Error ''AuthorizationFailed''",
      THEN conjunct2, THEN conjunct2, THEN conjunct2, THEN conjunct2, THEN conjunct2,
      THEN conjunct2, THEN mp, OF 7]
  have run: "deleteManagedIdentities ?n ''cluster1'' ''cluster1-oidc'' ''sub-1'' ''eastus'' [] =
      ([NextPage ''cluster1-oidc'' (Inr [Some identityNoName])], Panic)"
    using noname by (simp add: scripted_def)
  from safe tags pointers run exact fetch refused show ?thesis
    by (intro conjI)
qed

text \<open>
  C10, region and subscription noninterference. What \<^verbatim>\<open>deleteManagedIdentities\<close> returns
  and the calls it makes do not depend on its \<^verbatim>\<open>subscriptionID\<close> and \<^verbatim>\<open>region\<close>
  arguments. For \<^verbatim>\<open>deleteCmd\<close> as a whole the region is without any effect; the
  subscription ID is used there, to make the client.
\<close>

theorem deleteManagedIdentities_ignores_subscription_and_region:
  "deleteManagedIdentities c name rg subscriptionID region h =
     deleteManagedIdentities c name rg subscriptionID' region' h
   \<and> deleteCmd e (opts\<lparr>Region := r\<rparr>) =
       (case deleteCmd e opts of (opts', tr, x) \<Rightarrow> (opts'\<lparr>Region := r\<rparr>, tr, x))"
proof
  show "deleteManagedIdentities c name rg subscriptionID region h =
      deleteManagedIdentities c name rg subscriptionID' region' h"
    by (rule deleteManagedIdentities_unused_arguments)
  show "deleteCmd e (opts\<lparr>Region := r\<rparr>) =
      (case deleteCmd e opts of (opts', tr, x) \<Rightarrow> (opts'\<lparr>Region := r\<rparr>, tr, x))"
  proof (cases rule: deleteCmd_cases [where e = e and opts = opts])
    case credential
    then show ?thesis by (simp add: deleteCmd_no_credential)
  next
    case client
    then show ?thesis by (simp add: deleteCmd_no_client)
  next
    case (run c')
    then have "newAzureClientWrapper e (SubscriptionID (opts\<lparr>Region := r\<rparr>)) = Inr c'"
      by simp
    with run show ?thesis
      by (simp add: deleteCmd_client defaulted_Region preamble_Region deletePaths_Region)
  qed
qed

theorem deleteManagedIdentities_ignores_subscription_and_region_witness:
  "deleteManagedIdentities okClient ''cluster1'' ''cluster1-oidc'' ''sub-2'' ''westeurope'' [] =
     ([NextPage ''cluster1-oidc'' (Inr [Some identityA, Some identityB]),
       NextPage ''cluster1-oidc'' (Inr [Some identityC]),
       IdentityDelete Background ''cluster1-oidc'' ''a'' None,
       Log ''Deleted uai /ids/a'',
       IdentityDelete Background ''cluster1-oidc'' ''c'' None,
       Log ''Deleted uai /ids/c''],
      Return None)
   \<and> snd (deleteCmd (exampleEnv okClient) (exampleOpts\<lparr>Region := ''westeurope''\<rparr>)) =
       snd (deleteCmd (exampleEnv okClient) exampleOpts)"
  using deleteManagedIdentities_ignores_subscription_and_region
      [where c = okClient and name = "''cluster1''" and rg = "''cluster1-oidc''"
         and subscriptionID = "''sub-2''" and region = "''westeurope''" and h = "[]"
         and subscriptionID' = "''sub-1''" and region' = "''eastus''"
         and e = "exampleEnv okClient" and opts = exampleOpts and r = "''westeurope''"]
    example_identities
  by (simp add: split_beta)

end
